theory Spec2Isabelle
  imports Complex_Main
begin

section \<open>Hyundai car controller and car interface\<close>

text \<open>
  A shallow embedding of \<^verbatim>\<open>selfdrive/car/hyundai/carcontroller.py\<close> and of the
  \<^verbatim>\<open>update\<close> method of \<^verbatim>\<open>selfdrive/car/hyundai/interface.py\<close>.

  Conventions.
  \<^item> Python floats are idealised as \<^typ>\<open>real\<close>: rounding, infinities and NaN are
    not modelled. Python ints are \<^typ>\<open>int\<close>; \<^verbatim>\<open>%\<close> with a positive modulus is
    \<open>mod\<close> and \<^verbatim>\<open>//\<close> is \<open>div\<close>.
  \<^item> An integer used as a condition (\<^verbatim>\<open>if CS.mdps_bus\<close>) is written \<open>\<noteq> 0\<close>.
  \<^item> The object \<^verbatim>\<open>self\<close> is a record that every method takes and returns.
  \<^item> \<^verbatim>\<open>can_sends\<close> is a list of semantic messages: each \<^verbatim>\<open>create_*\<close> call of the
    source becomes a constructor holding the values computed by the controller. The
    packer and the echoed signal dictionaries handed through to the codec are left out.
  \<^item> Constants, tables and functions that the two files import from modules outside
    them are parameters, collected in the record \<open>env\<close> (fixed for a run) or in
    the per-cycle input (answers of the \<^verbatim>\<open>SccSmoother\<close> object).
\<close>

subsection \<open>Imported enumerations\<close>

text \<open>\<^verbatim>\<open>values.CAR\<close>: the five identities that the source names, and all others.\<close>

datatype CAR = GENESIS | GENESIS_G70 | GENESIS_G80 | GENESIS_G90 | GENESIS_G90_L | OTHER_CAR nat

text \<open>\<^verbatim>\<open>values.Buttons\<close>.\<close>

datatype Buttons = NONE | RES_ACCEL | SET_DECEL | GAP_DIST | CANCEL

text \<open>\<^verbatim>\<open>car.CarControl.HUDControl.VisualAlert\<close>.\<close>

datatype VisualAlert = noAlert | fcw | steerRequired | brakePressed | wrongGear
  | seatbeltUnbuckled | speedTooHigh | ldw

text \<open>\<^verbatim>\<open>car.CarState.ButtonEvent.Type\<close>.\<close>

datatype ButtonType = unknown | leftBlinker | rightBlinker | accelCruise | decelCruise
  | cancel | altButton1 | altButton2 | altButton3 | setCruise | resumeCruise | gapAdjustCruise

text \<open>\<^verbatim>\<open>car.CarEvent.EventName\<close>: the names that the interface uses, and all others.\<close>

datatype EventName = brakeUnavailable | belowSteerSpeed | turningIndicatorOn | pedalPressed
  | buttonCancel | buttonEnable | wrongCarMode | pcmDisable | otherEvent nat

subsection \<open>Imported constants and functions\<close>

record env =
  DT_CTRL :: real
  KPH_TO_MS :: real
  MS_TO_KPH :: real
  MS_TO_MPH :: real
  LANE_CHANGE_SPEED_MIN :: real
  apply_std_steer_torque_limits :: "int \<Rightarrow> int \<Rightarrow> real \<Rightarrow> int"
  send_lfa_mfa :: "CAR \<Rightarrow> bool"
  button_code :: "Buttons \<Rightarrow> int"

text \<open>
  \<open>DT_CTRL\<close> is \<^verbatim>\<open>common.realtime.DT_CTRL\<close>; the three conversion factors are fields of
  \<^verbatim>\<open>selfdrive.config.Conversions\<close>; \<open>apply_std_steer_torque_limits\<close> is the function of
  \<^verbatim>\<open>selfdrive.car\<close> applied to the fixed \<^verbatim>\<open>SteerLimitParams\<close>; \<open>send_lfa_mfa c\<close> says
  that \<open>c\<close> is in \<^verbatim>\<open>FEATURES["send_lfa_mfa"]\<close>; \<open>button_code\<close> gives the integer
  behind each name of \<^verbatim>\<open>values.Buttons\<close>.
\<close>

definition clip :: "real \<Rightarrow> real \<Rightarrow> real \<Rightarrow> real" where
  \<comment> \<open>Modelled from the spec: \<^verbatim>\<open>common.numpy_fast.clip\<close> is not part of the two files; the
      spec says the scaled value is "clipped to [ACCEL_MIN, ACCEL_MAX]".\<close>
  "clip x lo hi = max lo (min hi x)"

definition py_round :: "real \<Rightarrow> int" where
  \<comment> \<open>Python 3 \<^verbatim>\<open>int(round(x))\<close>: to the nearest integer, a tie to the even one.\<close>
  "py_round x =
     (let f = \<lfloor>x\<rfloor>; d = x - of_int f
      in if d < 1 / 2 then f else if 1 / 2 < d then f + 1 else if even f then f else f + 1)"

subsection \<open>carcontroller.py: parameters\<close>

definition ACCEL_HYST_GAP :: real where "ACCEL_HYST_GAP = 0.02"
definition ACCEL_MAX :: real where "ACCEL_MAX = 1.5"
definition ACCEL_MIN :: real where "ACCEL_MIN = - 4.0"
definition ACCEL_SCALE :: real where "ACCEL_SCALE = max ACCEL_MAX (- ACCEL_MIN)"
definition STEER_MAX :: real where "STEER_MAX = 409"

definition min_set_speed :: "env \<Rightarrow> real" where
  "min_set_speed e = 30 * KPH_TO_MS e"

subsection \<open>carcontroller.py: the two pure functions\<close>

definition accel_hysteresis :: "real \<Rightarrow> real \<Rightarrow> real \<times> real" where
  "accel_hysteresis accel accel_steady =
     (let accel_steady' =
            (if accel > accel_steady + ACCEL_HYST_GAP then accel - ACCEL_HYST_GAP
             else if accel < accel_steady - ACCEL_HYST_GAP then accel + ACCEL_HYST_GAP
             else accel_steady)
      in (accel_steady', accel_steady'))"

definition genesis_family :: "CAR \<Rightarrow> bool" where
  "genesis_family fingerprint =
     (fingerprint \<in> set [GENESIS, GENESIS_G70, GENESIS_G80, GENESIS_G90, GENESIS_G90_L])"

definition process_hud_alert ::
  "bool \<Rightarrow> CAR \<Rightarrow> VisualAlert \<Rightarrow> bool \<Rightarrow> bool \<Rightarrow> bool \<Rightarrow> bool \<Rightarrow> bool \<times> int \<times> int \<times> int" where
  "process_hud_alert enabled fingerprint visual_alert left_lane right_lane
       left_lane_depart right_lane_depart =
     (let sys_warning = (visual_alert = steerRequired);
          sys_state =
            (if left_lane \<and> right_lane \<or> sys_warning
             then (if enabled \<or> sys_warning then 3 else 4)
             else if left_lane then 5
             else if right_lane then 6
             else 1);
          left_lane_warning =
            (if left_lane_depart then (if genesis_family fingerprint then 1 else 2) else 0);
          right_lane_warning =
            (if right_lane_depart then (if genesis_family fingerprint then 1 else 2) else 0)
      in (sys_warning, sys_state, left_lane_warning, right_lane_warning))"

subsection \<open>carcontroller.py: state, inputs and messages\<close>

text \<open>The fields of \<^verbatim>\<open>CarController\<close> (the packer and the smoother object apart).\<close>

record CarController =
  car_fingerprint :: CAR
  accel_steady :: real
  apply_steer_last :: int
  apply_accel_last :: real
  steer_rate_limited :: bool
  lkas11_cnt :: int
  scc12_cnt :: int
  prev_scc_cnt :: int
  resume_cnt :: int
  last_lead_distance :: real
  resume_wait_timer :: int
  turning_signal_timer :: real
  turning_indicator_alert :: bool
  longcontrol :: bool
  scc_live :: bool
  mad_mode_enabled :: bool

text \<open>
  \<^verbatim>\<open>__init__\<close>. \<^verbatim>\<open>apply_accel_last\<close>, \<^verbatim>\<open>prev_scc_cnt\<close> and \<^verbatim>\<open>turning_indicator_alert\<close> are
  first assigned later (the last one by the interface, before the first \<^verbatim>\<open>update\<close>);
  they start here at 0 and \<open>False\<close>.
\<close>

definition init :: "CAR \<Rightarrow> bool \<Rightarrow> bool \<Rightarrow> bool \<Rightarrow> CarController" where
  "init carFingerprint openpilotLongitudinalControl radarOffCan MadModeEnabled =
     \<lparr> car_fingerprint = carFingerprint,
       accel_steady = 0,
       apply_steer_last = 0,
       apply_accel_last = 0,
       steer_rate_limited = False,
       lkas11_cnt = 0,
       scc12_cnt = 0,
       prev_scc_cnt = 0,
       resume_cnt = 0,
       last_lead_distance = 0,
       resume_wait_timer = 0,
       turning_signal_timer = 0,
       turning_indicator_alert = False,
       longcontrol = openpilotLongitudinalControl,
       scc_live = (\<not> radarOffCan),
       mad_mode_enabled = MadModeEnabled \<rparr>"

text \<open>What \<^verbatim>\<open>update\<close> reads of the car state \<^verbatim>\<open>CS\<close>.\<close>

record CarState =
  steeringTorque :: real
  steeringAngleDeg :: real
  vEgo :: real
  out_leftBlinker :: bool
  out_rightBlinker :: bool
  standstill :: bool
  maxSteeringAngleDeg :: real
  mdps_bus :: int
  scc_bus :: int
  CF_Clu_Vanz :: real
  is_set_speed_in_mph :: bool
  CF_Lkas_MsgCount :: int
  CR_VSM_Alive :: int
  aReqValue :: real
  AliveCounterACC :: int
  no_radar :: bool
  lead_distance :: real
  cruiseState_enabled :: bool
  has_scc13 :: bool
  has_scc14 :: bool

text \<open>The attributes of \<^verbatim>\<open>controls\<close> that \<^verbatim>\<open>update\<close> reads or writes.\<close>

record Controls =
  clu_speed_ms :: real
  ctl_apply_accel :: real
  ctl_aReqValue :: real
  aReqValueMin :: real
  aReqValueMax :: real
  fused_accel :: real
  lead_drel :: real

text \<open>
  The arguments of one call of \<^verbatim>\<open>update\<close>, with the answers that the \<^verbatim>\<open>SccSmoother\<close>
  object gives during the call: \<open>is_active\<close> for \<^verbatim>\<open>is_active(frame)\<close>, \<open>get_wait_count\<close>
  for the static method of that name, \<open>get_fused_accel\<close> for the method of that name
  (applied to \<^verbatim>\<open>apply_accel\<close> and \<^verbatim>\<open>aReqValue\<close>), and \<open>smoother_sends\<close> for the
  entries that its \<^verbatim>\<open>update\<close> appends to \<^verbatim>\<open>can_sends\<close>, kept opaque.
\<close>

record Cycle =
  enabled :: bool
  CS :: CarState
  gas :: real
  brake :: real
  steer :: real
  pcm_cancel_cmd :: bool
  visual_alert :: VisualAlert
  left_lane :: bool
  right_lane :: bool
  left_lane_depart :: bool
  right_lane_depart :: bool
  set_speed :: real
  controls :: Controls
  is_active :: bool
  get_wait_count :: int
  get_fused_accel :: "real \<Rightarrow> real \<Rightarrow> real \<times> real"
  smoother_sends :: "nat list"

record lkas11 =
  lkas_frame :: int
  lkas_apply_steer :: int
  lkas_steer_req :: bool
  lkas_sys_warning :: bool
  lkas_sys_state :: int
  lkas_enabled :: bool
  lkas_left_lane :: bool
  lkas_right_lane :: bool
  lkas_left_lane_warning :: int
  lkas_right_lane_warning :: int
  lkas_bus :: int

text \<open>
  \<open>Clu11 cnt bus button speed\<close>, \<open>Scc12 apply_accel enabled cnt scc_live\<close>,
  \<open>Scc11 frame enabled set_speed scc_live\<close>, \<open>Scc14 enabled\<close>, \<open>Mdps12 frame\<close>,
  \<open>LfahdaMfc enabled\<close>; \<open>SmootherMsg\<close> is an entry appended by the smoother.
\<close>

datatype msg =
    Lkas11 lkas11
  | Clu11 int int Buttons real
  | Scc12 real bool int bool
  | Scc11 int bool real bool
  | Scc13
  | Scc14 bool
  | Mdps12 int
  | LfahdaMfc bool
  | SmootherMsg nat

subsection \<open>carcontroller.py: \<^verbatim>\<open>CarController.update\<close>\<close>

text \<open>
  Lines 117 to 129: whether lateral control is active this cycle, and the blinker
  countdown. The result is \<open>(lkas_active, turning_signal_timer)\<close>.
\<close>

definition lateral_gate :: "env \<Rightarrow> CarController \<Rightarrow> Cycle \<Rightarrow> bool \<times> real" where
  "lateral_gate e self c =
     (let cs = CS c;
          lkas_active = (enabled c \<and> \<bar>steeringAngleDeg cs\<bar> < maxSteeringAngleDeg cs);
          lkas_active =
            (if vEgo cs < 60 * KPH_TO_MS e \<and> car_fingerprint self = GENESIS \<and> \<not> mdps_bus cs \<noteq> 0
             then False else lkas_active);
          timer =
            (if out_leftBlinker cs \<or> out_rightBlinker cs then 0.5 / DT_CTRL e
             else turning_signal_timer self);
          lkas_active =
            (if turning_indicator_alert self \<and> vEgo cs < 2 * KPH_TO_MS e
             then False else lkas_active);
          timer = (if timer > 0 then timer - 1 else timer)
      in (lkas_active, timer))"

text \<open>
  Lines 191 to 216: the automatic resume after a standstill. The result is the new
  state and the messages appended to \<^verbatim>\<open>can_sends\<close>.
\<close>

definition auto_resume :: "CarController \<Rightarrow> Cycle \<Rightarrow> real \<Rightarrow> CarController \<times> msg list" where
  "auto_resume self c clu11_speed =
     (let cs = CS c in
      if standstill cs then
        if last_lead_distance self = 0 then
          (self\<lparr>last_lead_distance := lead_distance cs, resume_cnt := 0,
                resume_wait_timer := 0\<rparr>, [])
        else if is_active c then (self, [])
        else if resume_wait_timer self > 0 then
          (self\<lparr>resume_wait_timer := resume_wait_timer self - 1\<rparr>, [])
        else if lead_distance cs \<noteq> last_lead_distance self then
          (let sends = [Clu11 (resume_cnt self) (scc_bus cs) RES_ACCEL clu11_speed];
               self = self\<lparr>resume_cnt := resume_cnt self + 1\<rparr>
           in if resume_cnt self \<ge> 8
              then (self\<lparr>resume_cnt := 0, resume_wait_timer := get_wait_count c\<rparr>, sends)
              else (self, sends))
        else (self, [])
      else if last_lead_distance self \<noteq> 0 then (self\<lparr>last_lead_distance := 0\<rparr>, [])
      else (self, []))"

text \<open>
  Lines 234 to 248: the messages of the native cruise control, sent when the
  controller does the longitudinal control. The result is the new state, the new
  \<^verbatim>\<open>controls\<close> and the messages appended to \<^verbatim>\<open>can_sends\<close>.
\<close>

definition send_scc ::
  "CarController \<Rightarrow> Controls \<Rightarrow> int \<Rightarrow> Cycle \<Rightarrow> real \<Rightarrow> real
     \<Rightarrow> CarController \<times> Controls \<times> msg list" where
  "send_scc self ctl frame c apply_accel set_speed' =
     (let cs = CS c in
      if longcontrol self \<and> cruiseState_enabled cs \<and> (scc_bus cs \<noteq> 0 \<or> \<not> scc_live self)
           \<and> frame mod 2 = 0
      then
        (let (apply_accel, lead_drel') = get_fused_accel c apply_accel (aReqValue cs);
             ctl = ctl\<lparr>fused_accel := apply_accel, lead_drel := lead_drel'\<rparr>;
             sends = [Scc12 apply_accel (enabled c) (scc12_cnt self) (scc_live self),
                      Scc11 frame (enabled c) set_speed' (scc_live self)];
             sends = sends @ (if has_scc13 cs \<and> frame mod 20 = 0 then [Scc13] else []);
             sends = sends @ (if has_scc14 cs then [Scc14 (enabled c)] else []);
             self = self\<lparr>scc12_cnt := scc12_cnt self + 1\<rparr>
         in (self, ctl, sends))
      else (self, ctl, []))"

text \<open>Lines 148 to 150: the set speed in the unit of the display.\<close>

definition display_set_speed :: "env \<Rightarrow> Cycle \<Rightarrow> real" where
  "display_set_speed e c =
     (let set_speed' =
            (if \<not> (min_set_speed e < set_speed c \<and> set_speed c < 255 * KPH_TO_MS e)
             then min_set_speed e else set_speed c)
      in set_speed' * (if is_set_speed_in_mph (CS c) then MS_TO_MPH e else MS_TO_KPH e))"

text \<open>Lines 152 to 173: the counters, seeded from the echoed messages at frame 0.\<close>

definition advance_counts :: "CarController \<Rightarrow> int \<Rightarrow> Cycle \<Rightarrow> CarController" where
  "advance_counts self frame c =
     (let cs = CS c;
          self =
            (if frame = 0
             then self\<lparr>lkas11_cnt := CF_Lkas_MsgCount cs,
                       scc12_cnt := (if \<not> no_radar cs then CR_VSM_Alive cs + 1 else 0)\<rparr>
             else self);
          self = self\<lparr>prev_scc_cnt := AliveCounterACC cs\<rparr>
      in self\<lparr>lkas11_cnt := (lkas11_cnt self + 1) mod 16, scc12_cnt := scc12_cnt self mod 15\<rparr>)"

text \<open>
  The whole method, in the order of the source. The result is the new state, the new
  \<^verbatim>\<open>controls\<close> and \<^verbatim>\<open>can_sends\<close>.
\<close>

definition update ::
  "env \<Rightarrow> CarController \<Rightarrow> int \<Rightarrow> Cycle \<Rightarrow> CarController \<times> Controls \<times> msg list" where
  "update e self frame c =
     (let cs = CS c;
          ctl = controls c;
          (apply_accel, steady) = accel_hysteresis (gas c - brake c) (accel_steady self);
          self = self\<lparr>accel_steady := steady\<rparr>;
          apply_accel = clip (apply_accel * ACCEL_SCALE) ACCEL_MIN ACCEL_MAX;
          new_steer = py_round (steer c * STEER_MAX);
          apply_steer =
            apply_std_steer_torque_limits e new_steer (apply_steer_last self) (steeringTorque cs);
          self = self\<lparr>steer_rate_limited := (new_steer \<noteq> apply_steer)\<rparr>;
          (lkas_active, timer) = lateral_gate e self c;
          self = self\<lparr>turning_signal_timer := timer\<rparr>;
          apply_steer = (if \<not> lkas_active then 0 else apply_steer);
          self = self\<lparr>apply_accel_last := apply_accel, apply_steer_last := apply_steer\<rparr>;
          (sys_warning, sys_state, left_lane_warning, right_lane_warning) =
            process_hud_alert (enabled c) (car_fingerprint self) (visual_alert c)
              (left_lane c) (right_lane c) (left_lane_depart c) (right_lane_depart c);
          clu11_speed = CF_Clu_Vanz cs;
          enabled_speed = (if is_set_speed_in_mph cs then 38 else 60);
          enabled_speed =
            (if clu11_speed > enabled_speed \<or> \<not> lkas_active then clu11_speed else enabled_speed);
          ctl = ctl\<lparr>clu_speed_ms := clu11_speed * KPH_TO_MS e\<rparr>;
          set_speed' = display_set_speed e c;
          self = advance_counts self frame c;
          lkas = (\<lambda>bus. Lkas11 \<lparr> lkas_frame = frame, lkas_apply_steer = apply_steer,
                     lkas_steer_req = lkas_active, lkas_sys_warning = sys_warning,
                     lkas_sys_state = sys_state, lkas_enabled = enabled c,
                     lkas_left_lane = left_lane c, lkas_right_lane = right_lane c,
                     lkas_left_lane_warning = left_lane_warning,
                     lkas_right_lane_warning = right_lane_warning, lkas_bus = bus \<rparr>);
          can_sends = [lkas 0];
          can_sends = can_sends @ (if mdps_bus cs \<noteq> 0 \<or> scc_bus cs = 1 then [lkas 1] else []);
          can_sends = can_sends @
            (if frame mod 2 \<noteq> 0 \<and> mdps_bus cs \<noteq> 0
             then [Clu11 (frame div 2 mod 16) (mdps_bus cs) NONE enabled_speed] else []);
          can_sends = can_sends @
            (if pcm_cancel_cmd c \<and> (longcontrol self \<and> \<not> mad_mode_enabled self)
             then [Clu11 (frame mod 16) (scc_bus cs) CANCEL clu11_speed] else []);
          (self, resume_sends) = auto_resume self c clu11_speed;
          can_sends = can_sends @ resume_sends;
          can_sends = can_sends @ map SmootherMsg (smoother_sends c);
          can_sends = can_sends @ (if mdps_bus cs \<noteq> 0 then [Mdps12 frame] else []);
          ctl = ctl\<lparr>ctl_apply_accel := apply_accel, ctl_aReqValue := aReqValue cs\<rparr>;
          ctl = (if aReqValue cs < aReqValueMin ctl
                 then ctl\<lparr>aReqValueMin := ctl_aReqValue ctl\<rparr> else ctl);
          ctl = (if aReqValue cs > aReqValueMax ctl
                 then ctl\<lparr>aReqValueMax := ctl_aReqValue ctl\<rparr> else ctl);
          (self, ctl, scc_sends) = send_scc self ctl frame c apply_accel set_speed';
          can_sends = can_sends @ scc_sends;
          can_sends = can_sends @
            (if frame mod 5 = 0 \<and> send_lfa_mfa e (car_fingerprint self)
             then [LfahdaMfc (enabled c)] else [])
      in (self, ctl, can_sends))"

text \<open>
  A run: \<^verbatim>\<open>CarInterface.apply\<close> calls \<^verbatim>\<open>update\<close> once per cycle with its own frame
  number, which it then increases by one. The \<^verbatim>\<open>controls\<close> of a cycle are part of that
  cycle's input. The result is the final state and the \<^verbatim>\<open>can_sends\<close> of each cycle.
\<close>

fun run :: "env \<Rightarrow> CarController \<Rightarrow> int \<Rightarrow> Cycle list \<Rightarrow> CarController \<times> msg list list" where
  "run e self frame [] = (self, [])"
| "run e self frame (c # cs) =
     (case update e self frame c of
        (self', ctl, can_sends) \<Rightarrow>
          (case run e self' (frame + 1) cs of
             (self'', rest) \<Rightarrow> (self'', can_sends # rest)))"

subsection \<open>interface.py: \<^verbatim>\<open>CarInterface.update\<close>\<close>

record ButtonEvent =
  be_type :: ButtonType
  pressed :: bool

text \<open>
  The fields of \<^verbatim>\<open>CarInterface\<close> that \<^verbatim>\<open>update\<close> reads or writes: its controller
  \<^verbatim>\<open>self.CC\<close>, \<^verbatim>\<open>self.low_speed_alert\<close>, \<^verbatim>\<open>self.CP.enableCruise\<close> and its own
  \<^verbatim>\<open>self.mad_mode_enabled\<close>.
\<close>

record CarInterface =
  CC :: CarController
  low_speed_alert :: bool
  enableCruise :: bool
  if_mad_mode_enabled :: bool

text \<open>
  What one call of \<^verbatim>\<open>update\<close> reads after \<^verbatim>\<open>self.CS.update\<close> has parsed the bus: fields
  of the returned car state \<^verbatim>\<open>ret\<close>, the validity of the three parsers, fields of
  \<^verbatim>\<open>self.CS\<close> and \<^verbatim>\<open>self.CP\<close>, the events that \<^verbatim>\<open>create_common_events(ret)\<close> returns, and
  the events that the smoother adds.
\<close>

record Reading =
  ret_leftBlinker :: bool
  ret_rightBlinker :: bool
  ret_vEgo :: real
  ret_cruise_enabled :: bool
  ret_cruise_available :: bool
  cp_can_valid :: bool
  cp2_can_valid :: bool
  cp_cam_can_valid :: bool
  cruise_buttons :: int
  prev_cruise_buttons :: int
  cruise_main_button :: int
  prev_cruise_main_button :: int
  cruise_unavail :: bool
  cs_mdps_bus :: int
  minSteerSpeed :: real
  create_common_events :: "EventName list"
  smoother_events :: "EventName list"

text \<open>The fields of the returned car state that \<^verbatim>\<open>update\<close> assigns.\<close>

record CarStateOut =
  canValid :: bool
  cruise_enabled :: bool
  buttonEvents :: "ButtonEvent list"
  events :: "EventName list"

text \<open>
  The event collection is the list \<^verbatim>\<open>events.events\<close>: \<^verbatim>\<open>events.add\<close> appends to it,
  \<^verbatim>\<open>events.events.remove\<close> deletes the first occurrence.
\<close>

definition inject_events :: "Reading \<Rightarrow> EventName list \<Rightarrow> EventName list" where
  \<comment> \<open>Modelled from the spec: \<^verbatim>\<open>SccSmoother.inject_events\<close> is not part of the two files;
      the spec says that this hook "may add further conditions".\<close>
  "inject_events r evs = evs @ smoother_events r"

text \<open>Lines 300 to 309: the type of a cruise button event.\<close>

definition cruise_button_type :: "env \<Rightarrow> int \<Rightarrow> ButtonType" where
  "cruise_button_type e but =
     (if but = button_code e RES_ACCEL then accelCruise
      else if but = button_code e SET_DECEL then decelCruise
      else if but = button_code e GAP_DIST then gapAdjustCruise
      else unknown)"

text \<open>Lines 295 to 316.\<close>

definition button_events :: "env \<Rightarrow> Reading \<Rightarrow> ButtonEvent list" where
  "button_events e r =
     (if cruise_buttons r \<noteq> prev_cruise_buttons r
      then (let be_pressed = (cruise_buttons r \<noteq> 0);
                but = (if be_pressed then cruise_buttons r else prev_cruise_buttons r)
            in [\<lparr> be_type = cruise_button_type e but, pressed = be_pressed \<rparr>])
      else [])
     @ (if cruise_main_button r \<noteq> prev_cruise_main_button r
        then [\<lparr> be_type = altButton3, pressed = (cruise_main_button r \<noteq> 0) \<rparr>]
        else [])"

text \<open>Lines 335 to 349: the body of the loop over the button events.\<close>

definition handle_button ::
  "CarController \<Rightarrow> bool \<Rightarrow> EventName list \<Rightarrow> ButtonEvent \<Rightarrow> EventName list" where
  "handle_button cc cruiseState_enabled' evs b =
     (let evs = (if be_type b = cancel \<and> pressed b then evs @ [buttonCancel] else evs)
      in if longcontrol cc \<and> \<not> scc_live cc then
           (let evs = (if be_type b \<in> set [accelCruise, decelCruise] \<and> \<not> pressed b
                       then evs @ [buttonEnable] else evs);
                evs = (if wrongCarMode \<in> set evs then remove1 wrongCarMode evs else evs);
                evs = (if pcmDisable \<in> set evs then remove1 pcmDisable evs else evs)
            in evs)
         else if \<not> longcontrol cc \<and> cruiseState_enabled' then
           (if be_type b = decelCruise \<and> \<not> pressed b then evs @ [buttonEnable] else evs)
         else evs)"

text \<open>
  Lines 318 to 331: the common events and the events of the alerts, before the loop over
  the button events. \<open>low\<close> is the new value of \<^verbatim>\<open>self.low_speed_alert\<close>.
\<close>

definition alert_events :: "CarController \<Rightarrow> bool \<Rightarrow> bool \<Rightarrow> Reading \<Rightarrow> EventName list" where
  "alert_events cc low mad r =
     (let evs = create_common_events r;
          evs = (if longcontrol cc \<and> cruise_unavail r then evs @ [brakeUnavailable] else evs);
          evs = (if low \<and> \<not> cs_mdps_bus r \<noteq> 0 then evs @ [belowSteerSpeed] else evs);
          evs = (if turning_indicator_alert cc then evs @ [turningIndicatorOn] else evs)
      in if mad \<and> pedalPressed \<in> set evs then remove1 pedalPressed evs else evs)"

text \<open>The whole method, in the order of the source.\<close>

definition iface_update :: "env \<Rightarrow> CarInterface \<Rightarrow> Reading \<Rightarrow> CarInterface \<times> CarStateOut" where
  "iface_update e self r =
     (let cc = CC self;
          ret_canValid = (cp_can_valid r \<and> cp2_can_valid r \<and> cp_cam_can_valid r);
          enableCruise' =
            (if enableCruise self \<and> \<not> scc_live cc then False
             else if scc_live cc \<and> \<not> enableCruise self then True
             else enableCruise self);
          cruiseState_enabled' =
            (if if_mad_mode_enabled self then ret_cruise_available r else ret_cruise_enabled r);
          cc =
            (if (ret_leftBlinker r \<or> ret_rightBlinker r \<or> turning_signal_timer cc \<noteq> 0)
                  \<and> ret_vEgo r < LANE_CHANGE_SPEED_MIN e - 1.2
             then cc\<lparr>turning_indicator_alert := True\<rparr>
             else cc\<lparr>turning_indicator_alert := False\<rparr>);
          low = (if ret_vEgo r < minSteerSpeed r + 0.2 \<and> minSteerSpeed r > 10 then True
                 else low_speed_alert self);
          low = (if ret_vEgo r > minSteerSpeed r + 0.7 then False else low);
          bes = button_events e r;
          evs = alert_events cc low (if_mad_mode_enabled self) r;
          evs = foldl (handle_button cc cruiseState_enabled') evs bes;
          evs = inject_events r evs
      in (self\<lparr>CC := cc, low_speed_alert := low, enableCruise := enableCruise'\<rparr>,
          \<lparr> canValid = ret_canValid, cruise_enabled = cruiseState_enabled',
            buttonEvents = bes, events = evs \<rparr>))"

subsection \<open>Observations on \<^verbatim>\<open>can_sends\<close>\<close>

fun is_resume :: "msg \<Rightarrow> bool" where
  "is_resume (Clu11 cnt bus RES_ACCEL speed) = True"
| "is_resume m = False"

fun is_scc12 :: "msg \<Rightarrow> bool" where
  "is_scc12 (Scc12 accel en cnt live) = True"
| "is_scc12 m = False"

fun is_scc11 :: "msg \<Rightarrow> bool" where
  "is_scc11 (Scc11 frame en speed live) = True"
| "is_scc11 m = False"

fun is_lkas11_on :: "int \<Rightarrow> msg \<Rightarrow> bool" where
  "is_lkas11_on bus (Lkas11 m) = (lkas_bus m = bus)"
| "is_lkas11_on bus m = False"

fun msg_cnt :: "msg \<Rightarrow> int" where
  "msg_cnt (Clu11 cnt bus button speed) = cnt"
| "msg_cnt (Scc12 accel en cnt live) = cnt"
| "msg_cnt m = 0"

subsection \<open>Concrete inputs\<close>

text \<open>
  The values of the imported constants in the upstream modules (\<^verbatim>\<open>DT_CTRL = 0.01\<close>,
  \<^verbatim>\<open>MS_TO_KPH = 3.6\<close>, \<^verbatim>\<open>MPH_TO_KPH = 1.609344\<close>, buttons numbered from 0), with a
  steering limiter that only bounds the step from the last torque.
\<close>

definition env0 :: env where
  "env0 = \<lparr> DT_CTRL = 0.01, KPH_TO_MS = 1 / 3.6, MS_TO_KPH = 3.6,
            MS_TO_MPH = 3.6 / 1.609344, LANE_CHANGE_SPEED_MIN = 60 / 3.6,
            apply_std_steer_torque_limits = (\<lambda>new last driver. max (last - 5) (min (last + 3) new)),
            send_lfa_mfa = (\<lambda>c. False),
            button_code = (\<lambda>b. case b of NONE \<Rightarrow> 0 | RES_ACCEL \<Rightarrow> 1 | SET_DECEL \<Rightarrow> 2
                                 | GAP_DIST \<Rightarrow> 3 | CANCEL \<Rightarrow> 4) \<rparr>"

definition car0 :: CarState where
  "car0 = \<lparr> steeringTorque = 0, steeringAngleDeg = 0, vEgo = 20, out_leftBlinker = False,
            out_rightBlinker = False, standstill = False, maxSteeringAngleDeg = 90,
            mdps_bus = 0, scc_bus = 0, CF_Clu_Vanz = 72, is_set_speed_in_mph = False,
            CF_Lkas_MsgCount = 0, CR_VSM_Alive = 0, aReqValue = 0, AliveCounterACC = 0,
            no_radar = False, lead_distance = 0, cruiseState_enabled = True,
            has_scc13 = False, has_scc14 = False \<rparr>"

definition controls0 :: Controls where
  "controls0 = \<lparr> clu_speed_ms = 0, ctl_apply_accel = 0, ctl_aReqValue = 0, aReqValueMin = 0,
                 aReqValueMax = 0, fused_accel = 0, lead_drel = 0 \<rparr>"

definition cycle0 :: Cycle where
  "cycle0 = \<lparr> enabled = True, CS = car0, gas = 0, brake = 0, steer = 0,
              pcm_cancel_cmd = False, visual_alert = noAlert, left_lane = True,
              right_lane = True, left_lane_depart = False, right_lane_depart = False,
              set_speed = 25, controls = controls0, is_active = False, get_wait_count = 3,
              get_fused_accel = (\<lambda>accel areq. (accel, 0)), smoother_sends = [] \<rparr>"

text \<open>A controller without and with full longitudinal control, the radar on the bus.\<close>

definition cc0 :: CarController where
  "cc0 = init (OTHER_CAR 0) False False False"

definition cc_long :: CarController where
  "cc_long = init (OTHER_CAR 0) True False False"

text \<open>The left blinker is on and the car almost stands.\<close>

definition blink :: Cycle where
  "blink = cycle0\<lparr>CS := car0\<lparr>out_leftBlinker := True, vEgo := 0.5\<rparr>\<rparr>"

text \<open>
  An interface without mad mode around the controller \<open>cc0\<close>, and a reading in which
  the cruise button code goes from 2 (set/decelerate) to 0 while cruise is enabled and
  neither \<^verbatim>\<open>create_common_events\<close> nor the smoother reports an event.
\<close>

definition iface0 :: CarInterface where
  "iface0 = \<lparr> CC = cc0, low_speed_alert = False, enableCruise = True,
              if_mad_mode_enabled = False \<rparr>"

definition release_decel :: Reading where
  "release_decel = \<lparr> ret_leftBlinker = False, ret_rightBlinker = False, ret_vEgo = 20,
       ret_cruise_enabled = True, ret_cruise_available = True, cp_can_valid = True,
       cp2_can_valid = True, cp_cam_can_valid = True, cruise_buttons = 0,
       prev_cruise_buttons = 2, cruise_main_button = 0, prev_cruise_main_button = 0,
       cruise_unavail = False, cs_mdps_bus = 0, minSteerSpeed = 0,
       create_common_events = [], smoother_events = [] \<rparr>"

text \<open>The car reports cruise standstill, with the lead distance \<open>d\<close>.\<close>

definition still :: "real \<Rightarrow> Cycle" where
  "still d = cycle0\<lparr>CS := car0\<lparr>standstill := True, vEgo := 0, lead_distance := d\<rparr>\<rparr>"

text \<open>
  The cruise control is on bus 2; the car echoes the alive counter 13 and the lane-keep
  message count 14.
\<close>

definition echo13 :: Cycle where
  "echo13 = cycle0\<lparr>CS := car0\<lparr>scc_bus := 2, CR_VSM_Alive := 13, CF_Lkas_MsgCount := 14\<rparr>\<rparr>"

section \<open>Properties\<close>

subsection \<open>What each part of \<^verbatim>\<open>update\<close> changes\<close>

lemma auto_resume_keeps:
  "car_fingerprint (fst (auto_resume s c v)) = car_fingerprint s"
  "accel_steady (fst (auto_resume s c v)) = accel_steady s"
  "apply_steer_last (fst (auto_resume s c v)) = apply_steer_last s"
  "apply_accel_last (fst (auto_resume s c v)) = apply_accel_last s"
  "steer_rate_limited (fst (auto_resume s c v)) = steer_rate_limited s"
  "lkas11_cnt (fst (auto_resume s c v)) = lkas11_cnt s"
  "scc12_cnt (fst (auto_resume s c v)) = scc12_cnt s"
  "prev_scc_cnt (fst (auto_resume s c v)) = prev_scc_cnt s"
  "turning_signal_timer (fst (auto_resume s c v)) = turning_signal_timer s"
  "turning_indicator_alert (fst (auto_resume s c v)) = turning_indicator_alert s"
  "longcontrol (fst (auto_resume s c v)) = longcontrol s"
  "scc_live (fst (auto_resume s c v)) = scc_live s"
  "mad_mode_enabled (fst (auto_resume s c v)) = mad_mode_enabled s"
  by (simp_all add: auto_resume_def Let_def)

lemma send_scc_keeps:
  "car_fingerprint (fst (send_scc s ctl f c a v)) = car_fingerprint s"
  "accel_steady (fst (send_scc s ctl f c a v)) = accel_steady s"
  "apply_steer_last (fst (send_scc s ctl f c a v)) = apply_steer_last s"
  "apply_accel_last (fst (send_scc s ctl f c a v)) = apply_accel_last s"
  "steer_rate_limited (fst (send_scc s ctl f c a v)) = steer_rate_limited s"
  "lkas11_cnt (fst (send_scc s ctl f c a v)) = lkas11_cnt s"
  "prev_scc_cnt (fst (send_scc s ctl f c a v)) = prev_scc_cnt s"
  "resume_cnt (fst (send_scc s ctl f c a v)) = resume_cnt s"
  "last_lead_distance (fst (send_scc s ctl f c a v)) = last_lead_distance s"
  "resume_wait_timer (fst (send_scc s ctl f c a v)) = resume_wait_timer s"
  "turning_signal_timer (fst (send_scc s ctl f c a v)) = turning_signal_timer s"
  "turning_indicator_alert (fst (send_scc s ctl f c a v)) = turning_indicator_alert s"
  "longcontrol (fst (send_scc s ctl f c a v)) = longcontrol s"
  "scc_live (fst (send_scc s ctl f c a v)) = scc_live s"
  "mad_mode_enabled (fst (send_scc s ctl f c a v)) = mad_mode_enabled s"
  by (simp_all add: send_scc_def Let_def case_prod_beta)

lemma advance_counts_keeps:
  "car_fingerprint (advance_counts s f c) = car_fingerprint s"
  "accel_steady (advance_counts s f c) = accel_steady s"
  "apply_steer_last (advance_counts s f c) = apply_steer_last s"
  "apply_accel_last (advance_counts s f c) = apply_accel_last s"
  "steer_rate_limited (advance_counts s f c) = steer_rate_limited s"
  "resume_cnt (advance_counts s f c) = resume_cnt s"
  "last_lead_distance (advance_counts s f c) = last_lead_distance s"
  "resume_wait_timer (advance_counts s f c) = resume_wait_timer s"
  "turning_signal_timer (advance_counts s f c) = turning_signal_timer s"
  "turning_indicator_alert (advance_counts s f c) = turning_indicator_alert s"
  "longcontrol (advance_counts s f c) = longcontrol s"
  "scc_live (advance_counts s f c) = scc_live s"
  "mad_mode_enabled (advance_counts s f c) = mad_mode_enabled s"
  by (simp_all add: advance_counts_def Let_def)

lemmas keeps = auto_resume_keeps send_scc_keeps advance_counts_keeps

lemma lateral_gate_upd:
  "lateral_gate e (s\<lparr>accel_steady := a\<rparr>) c = lateral_gate e s c"
  "lateral_gate e (s\<lparr>steer_rate_limited := b\<rparr>) c = lateral_gate e s c"
  by (simp_all add: lateral_gate_def Let_def)

lemma update_accel_steady:
  "accel_steady (fst (update e self frame c)) = snd (accel_hysteresis (gas c - brake c) (accel_steady self))"
  by (simp add: update_def Let_def case_prod_beta keeps)

lemma update_apply_accel_last:
  "apply_accel_last (fst (update e self frame c)) =
     clip (fst (accel_hysteresis (gas c - brake c) (accel_steady self)) * ACCEL_SCALE) ACCEL_MIN ACCEL_MAX"
  by (simp add: update_def Let_def case_prod_beta keeps)

lemma update_apply_steer_last:
  "apply_steer_last (fst (update e self frame c)) =
     (if fst (lateral_gate e self c)
      then apply_std_steer_torque_limits e (py_round (steer c * STEER_MAX)) (apply_steer_last self)
             (steeringTorque (CS c))
      else 0)"
  by (simp add: update_def Let_def case_prod_beta keeps lateral_gate_upd)

lemma update_turning_signal_timer:
  "turning_signal_timer (fst (update e self frame c)) = snd (lateral_gate e self c)"
  by (simp add: update_def Let_def case_prod_beta keeps lateral_gate_upd)


lemma send_scc_sends:
  "snd (snd (send_scc s ctl f c a v)) =
     (if longcontrol s \<and> cruiseState_enabled (CS c) \<and> (scc_bus (CS c) \<noteq> 0 \<or> \<not> scc_live s)
           \<and> f mod 2 = 0
      then [Scc12 (fst (get_fused_accel c a (aReqValue (CS c)))) (enabled c) (scc12_cnt s) (scc_live s),
            Scc11 f (enabled c) v (scc_live s)]
           @ (if has_scc13 (CS c) \<and> f mod 20 = 0 then [Scc13] else [])
           @ (if has_scc14 (CS c) then [Scc14 (enabled c)] else [])
      else [])"
  by (simp add: send_scc_def Let_def case_prod_beta)

lemma send_scc_cnt:
  "scc12_cnt (fst (send_scc s ctl f c a v)) =
     (if longcontrol s \<and> cruiseState_enabled (CS c) \<and> (scc_bus (CS c) \<noteq> 0 \<or> \<not> scc_live s)
           \<and> f mod 2 = 0
      then scc12_cnt s + 1 else scc12_cnt s)"
  by (simp add: send_scc_def Let_def case_prod_beta)


lemma auto_resume_sends:
  "snd (auto_resume s c v) =
     (if standstill (CS c) \<and> last_lead_distance s \<noteq> 0 \<and> \<not> is_active c
           \<and> \<not> resume_wait_timer s > 0 \<and> lead_distance (CS c) \<noteq> last_lead_distance s
      then [Clu11 (resume_cnt s) (scc_bus (CS c)) RES_ACCEL v] else [])"
  by (simp add: auto_resume_def Let_def)

lemma advance_counts_lkas11_cnt:
  "lkas11_cnt (advance_counts s f c) =
     ((if f = 0 then CF_Lkas_MsgCount (CS c) else lkas11_cnt s) + 1) mod 16"
  by (simp add: advance_counts_def Let_def)

lemma advance_counts_scc12_cnt:
  "scc12_cnt (advance_counts s f c) =
     (if f = 0 then (if \<not> no_radar (CS c) then CR_VSM_Alive (CS c) + 1 else 0) else scc12_cnt s)
       mod 15"
  by (simp add: advance_counts_def Let_def)

lemma update_sends:
  "snd (snd (update e self frame c)) =
     (let cs = CS c;
          lkas_active = fst (lateral_gate e self c);
          apply_steer = apply_steer_last (fst (update e self frame c));
          hud = process_hud_alert (enabled c) (car_fingerprint self) (visual_alert c)
              (left_lane c) (right_lane c) (left_lane_depart c) (right_lane_depart c);
          enabled_speed = (if is_set_speed_in_mph cs then 38 else 60);
          enabled_speed =
            (if CF_Clu_Vanz cs > enabled_speed \<or> \<not> lkas_active then CF_Clu_Vanz cs else enabled_speed);
          lkas = (\<lambda>bus. Lkas11 \<lparr> lkas_frame = frame, lkas_apply_steer = apply_steer,
                     lkas_steer_req = lkas_active, lkas_sys_warning = fst hud,
                     lkas_sys_state = fst (snd hud), lkas_enabled = enabled c,
                     lkas_left_lane = left_lane c, lkas_right_lane = right_lane c,
                     lkas_left_lane_warning = fst (snd (snd hud)),
                     lkas_right_lane_warning = snd (snd (snd hud)), lkas_bus = bus \<rparr>)
      in [lkas 0]
         @ (if mdps_bus cs \<noteq> 0 \<or> scc_bus cs = 1 then [lkas 1] else [])
         @ (if frame mod 2 \<noteq> 0 \<and> mdps_bus cs \<noteq> 0
             then [Clu11 (frame div 2 mod 16) (mdps_bus cs) NONE enabled_speed] else [])
         @ (if pcm_cancel_cmd c \<and> (longcontrol self \<and> \<not> mad_mode_enabled self)
             then [Clu11 (frame mod 16) (scc_bus cs) CANCEL (CF_Clu_Vanz cs)] else [])
         @ snd (auto_resume self c (CF_Clu_Vanz cs))
         @ map SmootherMsg (smoother_sends c)
         @ (if mdps_bus cs \<noteq> 0 then [Mdps12 frame] else [])
         @ (if longcontrol self \<and> cruiseState_enabled cs \<and> (scc_bus cs \<noteq> 0 \<or> \<not> scc_live self)
                 \<and> frame mod 2 = 0
            then [Scc12 (fst (get_fused_accel c (apply_accel_last (fst (update e self frame c)))
                          (aReqValue cs))) (enabled c) (scc12_cnt (advance_counts self frame c))
                    (scc_live self),
                  Scc11 frame (enabled c) (display_set_speed e c) (scc_live self)]
                 @ (if has_scc13 cs \<and> frame mod 20 = 0 then [Scc13] else [])
                 @ (if has_scc14 cs then [Scc14 (enabled c)] else [])
            else [])
         @ (if frame mod 5 = 0 \<and> send_lfa_mfa e (car_fingerprint self)
             then [LfahdaMfc (enabled c)] else []))"
  by (simp add: update_def Let_def case_prod_beta keeps lateral_gate_upd send_scc_sends
        auto_resume_sends advance_counts_scc12_cnt split del: if_split cong: if_cong)

subsection \<open>The display code of the lane-keep message\<close>

text \<open>
  Claim C8. For every input, \<^verbatim>\<open>process_hud_alert\<close> returns the warning flag "the
  requested alert is steerRequired" and a display code that is 3 when (both lanes are
  visible or the warning flag is set) and (enabled or warning), 4 when (both lanes are
  visible or warning) but neither enabled nor warning, 5 when only the left lane is
  visible, 6 when only the right lane is visible, and 1 when no lane is visible and there
  is no warning. The cases are read in the order of the rule, so the cases 5 and 6 are
  those that the first two do not cover (no warning).
\<close>

theorem process_hud_alert_sys_state:
  "(let w = (va = steerRequired);
        code = fst (snd (process_hud_alert en fp va l r ld rd))
    in (fst (process_hud_alert en fp va l r ld rd) = w)
       \<and> ((l \<and> r \<or> w) \<and> (en \<or> w) \<longrightarrow> code = 3)
       \<and> ((l \<and> r \<or> w) \<and> \<not> en \<and> \<not> w \<longrightarrow> code = 4)
       \<and> (l \<and> \<not> r \<and> \<not> w \<longrightarrow> code = 5)
       \<and> (\<not> l \<and> r \<and> \<not> w \<longrightarrow> code = 6)
       \<and> (\<not> l \<and> \<not> r \<and> \<not> w \<longrightarrow> code = 1))"
  by (simp add: process_hud_alert_def Let_def)

text \<open>
  The three inputs of the spec: both lanes, no warning, enabled; no lane, no warning;
  only the right lane.
\<close>

theorem process_hud_alert_sys_state_witness:
  "fst (snd (process_hud_alert True GENESIS noAlert True True False False)) = 3
   \<and> fst (snd (process_hud_alert False GENESIS noAlert False False False False)) = 1
   \<and> fst (snd (process_hud_alert False GENESIS noAlert False True False False)) = 6"
  using process_hud_alert_sys_state [of noAlert True GENESIS True True False False]
    process_hud_alert_sys_state [of noAlert False GENESIS False False False False]
    process_hud_alert_sys_state [of noAlert False GENESIS False True False False]
  by (simp add: Let_def)

lemma send_scc_ctl_keeps:
  "clu_speed_ms (fst (snd (send_scc s ctl f c a v))) = clu_speed_ms ctl"
  "ctl_apply_accel (fst (snd (send_scc s ctl f c a v))) = ctl_apply_accel ctl"
  "ctl_aReqValue (fst (snd (send_scc s ctl f c a v))) = ctl_aReqValue ctl"
  "aReqValueMin (fst (snd (send_scc s ctl f c a v))) = aReqValueMin ctl"
  "aReqValueMax (fst (snd (send_scc s ctl f c a v))) = aReqValueMax ctl"
  by (simp_all add: send_scc_def Let_def case_prod_beta)

lemma update_ctl_apply_accel:
  "ctl_apply_accel (fst (snd (update e self frame c))) = apply_accel_last (fst (update e self frame c))"
  by (simp add: update_def Let_def case_prod_beta keeps send_scc_ctl_keeps)

lemma auto_resume_resume_cnt:
  "resume_cnt (fst (auto_resume s c v)) =
     (if standstill (CS c) then
        if last_lead_distance s = 0 then 0
        else if is_active c then resume_cnt s
        else if resume_wait_timer s > 0 then resume_cnt s
        else if lead_distance (CS c) \<noteq> last_lead_distance s
        then (if resume_cnt s + 1 \<ge> 8 then 0 else resume_cnt s + 1)
        else resume_cnt s
      else resume_cnt s)"
  by (simp add: auto_resume_def Let_def)

lemma auto_resume_resume_wait_timer:
  "resume_wait_timer (fst (auto_resume s c v)) =
     (if standstill (CS c) then
        if last_lead_distance s = 0 then 0
        else if is_active c then resume_wait_timer s
        else if resume_wait_timer s > 0 then resume_wait_timer s - 1
        else if lead_distance (CS c) \<noteq> last_lead_distance s
        then (if resume_cnt s + 1 \<ge> 8 then get_wait_count c else resume_wait_timer s)
        else resume_wait_timer s
      else resume_wait_timer s)"
  by (simp add: auto_resume_def Let_def)

lemma auto_resume_last_lead_distance:
  "last_lead_distance (fst (auto_resume s c v)) =
     (if standstill (CS c) then
        if last_lead_distance s = 0 then lead_distance (CS c) else last_lead_distance s
      else 0)"
  by (simp add: auto_resume_def Let_def)

lemmas auto_resume_fields =
  auto_resume_resume_cnt auto_resume_resume_wait_timer auto_resume_last_lead_distance

lemma update_resume_fields:
  "resume_cnt (fst (update e self frame c)) = resume_cnt (fst (auto_resume self c (CF_Clu_Vanz (CS c))))"
  "resume_wait_timer (fst (update e self frame c)) =
     resume_wait_timer (fst (auto_resume self c (CF_Clu_Vanz (CS c))))"
  "last_lead_distance (fst (update e self frame c)) =
     last_lead_distance (fst (auto_resume self c (CF_Clu_Vanz (CS c))))"
  by (simp_all add: update_def Let_def case_prod_beta keeps auto_resume_fields
        split del: if_split cong: if_cong)

lemma update_lkas11_cnt:
  "lkas11_cnt (fst (update e self frame c)) =
     ((if frame = 0 then CF_Lkas_MsgCount (CS c) else lkas11_cnt self) + 1) mod 16"
  by (simp add: update_def Let_def case_prod_beta keeps advance_counts_lkas11_cnt
        split del: if_split cong: if_cong)

lemma update_scc12_cnt:
  "scc12_cnt (fst (update e self frame c)) =
     (if frame = 0 then (if \<not> no_radar (CS c) then CR_VSM_Alive (CS c) + 1 else 0) else scc12_cnt self)
       mod 15
     + (if longcontrol self \<and> cruiseState_enabled (CS c) \<and> (scc_bus (CS c) \<noteq> 0 \<or> \<not> scc_live self)
           \<and> frame mod 2 = 0 then 1 else 0)"
  by (simp add: update_def Let_def case_prod_beta keeps send_scc_cnt advance_counts_scc12_cnt)

lemma update_keeps:
  "car_fingerprint (fst (update e self frame c)) = car_fingerprint self"
  "turning_indicator_alert (fst (update e self frame c)) = turning_indicator_alert self"
  "longcontrol (fst (update e self frame c)) = longcontrol self"
  "scc_live (fst (update e self frame c)) = scc_live self"
  "mad_mode_enabled (fst (update e self frame c)) = mad_mode_enabled self"
  by (simp_all add: update_def Let_def case_prod_beta keeps)

subsection \<open>The acceleration command\<close>

lemma clip_bounds: "lo \<le> hi \<Longrightarrow> lo \<le> clip x lo hi \<and> clip x lo hi \<le> hi"
  by (simp add: clip_def)

lemma accel_hysteresis_changes:
  "snd (accel_hysteresis a s) \<noteq> s \<Longrightarrow> \<bar>a - s\<bar> > 0.02"
  by (auto simp add: accel_hysteresis_def Let_def ACCEL_HYST_GAP_def split: if_splits)

lemma accel_hysteresis_fst: "fst (accel_hysteresis a s) = snd (accel_hysteresis a s)"
  by (simp add: accel_hysteresis_def Let_def)

text \<open>
  Claim C2, amended. In every cycle, with the raw input \<open>gas - brake\<close>: the steady value
  of the hysteresis filter changes only when the raw input differs from the current
  steady value by more than 0.02; the emitted acceleration command (stored as
  \<^verbatim>\<open>apply_accel_last\<close> and written to \<^verbatim>\<open>controls.apply_accel\<close>) is the new steady value
  scaled by \<open>max ACCEL_MAX |ACCEL_MIN| = 4\<close> and then clipped to \<open>[-4.0, 1.5]\<close>, so it
  is always within \<open>[-4.0, 1.5]\<close>. The statement holds from every state, hence along
  every sequence of inputs.
\<close>

theorem update_accel_command:
  "(accel_steady (fst (update e self frame c)) \<noteq> accel_steady self
      \<longrightarrow> \<bar>(gas c - brake c) - accel_steady self\<bar> > 0.02)
   \<and> apply_accel_last (fst (update e self frame c))
       = clip (accel_steady (fst (update e self frame c)) * max 1.5 4.0) (- 4.0) 1.5
   \<and> ctl_apply_accel (fst (snd (update e self frame c)))
       = apply_accel_last (fst (update e self frame c))
   \<and> - 4.0 \<le> apply_accel_last (fst (update e self frame c))
   \<and> apply_accel_last (fst (update e self frame c)) \<le> 1.5"
proof -
  let ?s = "fst (update e self frame c)"
  have hyst: "accel_steady ?s \<noteq> accel_steady self
      \<longrightarrow> \<bar>(gas c - brake c) - accel_steady self\<bar> > 0.02"
    using accel_hysteresis_changes [of "gas c - brake c" "accel_steady self"]
    by (simp add: update_accel_steady)
  have cmd: "apply_accel_last ?s = clip (accel_steady ?s * max 1.5 4.0) (- 4.0) 1.5"
    by (simp add: update_accel_steady update_apply_accel_last accel_hysteresis_fst
          ACCEL_SCALE_def ACCEL_MAX_def ACCEL_MIN_def)
  have rng: "- 4.0 \<le> apply_accel_last ?s \<and> apply_accel_last ?s \<le> 1.5"
    unfolding cmd by (rule clip_bounds) simp
  show ?thesis
    using hyst cmd rng by (simp add: update_ctl_apply_accel)
qed

text \<open>
  From the initial state: a raw input of 0.5 moves the steady value to 0.48 and the
  command is clipped to 1.5; a raw input of 0.01 is inside the gap and changes nothing.
\<close>

theorem update_accel_command_witness:
  "accel_steady (fst (update env0 cc0 0 (cycle0\<lparr>gas := 0.5\<rparr>))) = 0.48
   \<and> apply_accel_last (fst (update env0 cc0 0 (cycle0\<lparr>gas := 0.5\<rparr>))) = 1.5
   \<and> accel_steady (fst (update env0 cc0 0 (cycle0\<lparr>gas := 0.01\<rparr>))) = 0
   \<and> apply_accel_last (fst (update env0 cc0 0 (cycle0\<lparr>gas := 0.01\<rparr>))) = 0"
  using update_accel_command [of env0 cc0 0 "cycle0\<lparr>gas := 0.5\<rparr>"]
    update_accel_command [of env0 cc0 0 "cycle0\<lparr>gas := 0.01\<rparr>"]
  by (simp add: update_accel_steady accel_hysteresis_def Let_def clip_def ACCEL_HYST_GAP_def
        cc0_def init_def cycle0_def)

text \<open>
  Claim C2 as stated fails: with full gas from the initial state the steady value
  becomes 0.98, the scaled steady value is 3.92, and the emitted command is 1.5.
\<close>

theorem accel_command_is_clipped:
  "accel_steady (fst (update env0 cc0 0 (cycle0\<lparr>gas := 1\<rparr>))) * ACCEL_SCALE = 3.92
   \<and> apply_accel_last (fst (update env0 cc0 0 (cycle0\<lparr>gas := 1\<rparr>))) = 1.5
   \<and> apply_accel_last (fst (update env0 cc0 0 (cycle0\<lparr>gas := 1\<rparr>)))
       \<noteq> accel_steady (fst (update env0 cc0 0 (cycle0\<lparr>gas := 1\<rparr>))) * ACCEL_SCALE"
  by (simp add: update_accel_steady update_apply_accel_last accel_hysteresis_def Let_def clip_def
        ACCEL_HYST_GAP_def ACCEL_SCALE_def ACCEL_MAX_def ACCEL_MIN_def cc0_def init_def cycle0_def)

subsection \<open>The lateral gate and global enablement\<close>

lemma lateral_gate_not_enabled: "\<not> enabled c \<Longrightarrow> \<not> fst (lateral_gate e self c)"
  by (simp add: lateral_gate_def Let_def)

lemma lateral_gate_alert:
  "turning_indicator_alert self \<Longrightarrow> vEgo (CS c) < 2 * KPH_TO_MS e \<Longrightarrow> \<not> fst (lateral_gate e self c)"
  by (simp add: lateral_gate_def Let_def)

lemma update_lkas11_steer:
  "Lkas11 m \<in> set (snd (snd (update e self frame c)))
     \<Longrightarrow> lkas_apply_steer m = apply_steer_last (fst (update e self frame c))
         \<and> lkas_steer_req m = fst (lateral_gate e self c)"
  by (auto simp add: update_sends Let_def auto_resume_sends split: if_splits)

lemma update_lkas11_bus0:
  "\<exists>m. Lkas11 m \<in> set (snd (snd (update e self frame c))) \<and> lkas_bus m = 0"
  by (fastforce simp add: update_sends Let_def)

text \<open>
  Claim C3. In every cycle in which \<^verbatim>\<open>enabled\<close> is false, whatever the state and the
  other inputs (steering angle, speed, blinkers, planner request, limiter): the stored
  previous applied torque becomes zero, every lane-keep message of the cycle carries the
  applied torque zero and no steering request, and the lane-keep message on bus 0 is
  emitted.
\<close>

theorem update_not_enabled_no_steer:
  assumes "\<not> enabled c"
  shows "apply_steer_last (fst (update e self frame c)) = 0
    \<and> (\<forall>m. Lkas11 m \<in> set (snd (snd (update e self frame c)))
          \<longrightarrow> lkas_apply_steer m = 0 \<and> \<not> lkas_steer_req m)
    \<and> (\<exists>m. Lkas11 m \<in> set (snd (snd (update e self frame c))) \<and> lkas_bus m = 0)"
proof -
  have gate: "\<not> fst (lateral_gate e self c)"
    using assms by (rule lateral_gate_not_enabled)
  then have last: "apply_steer_last (fst (update e self frame c)) = 0"
    by (simp add: update_apply_steer_last)
  show ?thesis
    using gate last update_lkas11_steer [of _ e self frame c] update_lkas11_bus0 [of e self frame c]
    by auto
qed

text \<open>Not enabled, with the planner asking for full steering.\<close>

theorem update_not_enabled_no_steer_witness:
  "\<not> enabled (cycle0\<lparr>enabled := False, steer := 1\<rparr>)
   \<and> apply_steer_last (fst (update env0 cc0 0 (cycle0\<lparr>enabled := False, steer := 1\<rparr>))) = 0
   \<and> (\<exists>m. Lkas11 m \<in> set (snd (snd (update env0 cc0 0 (cycle0\<lparr>enabled := False, steer := 1\<rparr>))))
          \<and> lkas_bus m = 0 \<and> lkas_apply_steer m = 0 \<and> \<not> lkas_steer_req m)"
proof -
  have ne: "\<not> enabled (cycle0\<lparr>enabled := False, steer := 1\<rparr>)"
    by simp
  from update_not_enabled_no_steer [OF ne, of env0 cc0 0] show ?thesis
    using ne by blast
qed

subsection \<open>The set speed of the native-cruise message\<close>

lemma display_set_speed_eq:
  "display_set_speed e c =
     (if 30 * KPH_TO_MS e < set_speed c \<and> set_speed c < 255 * KPH_TO_MS e
      then set_speed c else 30 * KPH_TO_MS e)
     * (if is_set_speed_in_mph (CS c) then MS_TO_MPH e else MS_TO_KPH e)"
  by (simp add: display_set_speed_def min_set_speed_def Let_def)

text \<open>
  Claim C9. In every cycle, the set speed carried by the outgoing native-cruise message
  (\<^verbatim>\<open>create_scc11\<close>) is the incoming set speed if that is strictly between 30 km/h and
  255 km/h (expressed in m/s), and exactly 30 km/h (in m/s) otherwise, multiplied by the
  factor to the display unit (mph or km/h).
\<close>

theorem update_scc11_set_speed:
  assumes "Scc11 f en v live \<in> set (snd (snd (update e self frame c)))"
  shows "v = (if 30 * KPH_TO_MS e < set_speed c \<and> set_speed c < 255 * KPH_TO_MS e
              then set_speed c else 30 * KPH_TO_MS e)
             * (if is_set_speed_in_mph (CS c) then MS_TO_MPH e else MS_TO_KPH e)"
proof -
  have "v = display_set_speed e c"
    using assms by (auto simp add: update_sends Let_def auto_resume_sends split: if_splits)
  then show ?thesis
    by (simp only: display_set_speed_eq)
qed

text \<open>
  With full longitudinal control and the cruise control on bus 2, at frame 0: a set speed
  of 25 m/s is sent as 90 km/h; set speeds of 5 m/s and of 100 m/s are sent as 30 km/h.
\<close>

theorem update_scc11_set_speed_witness:
  "Scc11 0 True 90 True
     \<in> set (snd (snd (update env0 cc_long 0 (cycle0\<lparr>CS := car0\<lparr>scc_bus := 2\<rparr>\<rparr>))))
   \<and> Scc11 0 True 30 True
     \<in> set (snd (snd (update env0 cc_long 0 (cycle0\<lparr>CS := car0\<lparr>scc_bus := 2\<rparr>, set_speed := 5\<rparr>))))
   \<and> Scc11 0 True 30 True
     \<in> set (snd (snd (update env0 cc_long 0 (cycle0\<lparr>CS := car0\<lparr>scc_bus := 2\<rparr>, set_speed := 100\<rparr>))))"
  using update_scc11_set_speed [of 0 True 90 True env0 cc_long 0 "cycle0\<lparr>CS := car0\<lparr>scc_bus := 2\<rparr>\<rparr>"]
  by (simp add: update_sends Let_def display_set_speed_eq auto_resume_sends
        env0_def cc_long_def init_def cycle0_def car0_def)

subsection \<open>The seed of the native-cruise counter at frame 0\<close>

lemma update_no_scc_without_longcontrol:
  "\<not> longcontrol self \<Longrightarrow> m \<in> set (snd (snd (update e self frame c)))
     \<Longrightarrow> \<not> is_scc12 m \<and> \<not> is_scc11 m"
  by (auto simp add: update_sends Let_def auto_resume_sends split: if_splits)

text \<open>
  Claim C5, amended. At frame 0, if the echoed native-cruise alive counter is 7 and the
  radar is present, the native-cruise counter of the controller is seeded to 8 (the echo
  plus one); and without full longitudinal control the cycle emits no native-cruise
  accel/speed pair, although frame 0 is even.
\<close>

theorem update_frame0_seed:
  assumes "CR_VSM_Alive (CS c) = 7" and "\<not> no_radar (CS c)" and "\<not> longcontrol self"
  shows "scc12_cnt (fst (update e self 0 c)) = 8
    \<and> (\<forall>m \<in> set (snd (snd (update e self 0 c))). \<not> is_scc12 m \<and> \<not> is_scc11 m)"
  using assms update_no_scc_without_longcontrol [of self _ e 0 c]
  by (simp add: update_scc12_cnt)

theorem update_frame0_seed_witness:
  "CR_VSM_Alive (CS (cycle0\<lparr>CS := car0\<lparr>CR_VSM_Alive := 7\<rparr>\<rparr>)) = 7
   \<and> \<not> no_radar (CS (cycle0\<lparr>CS := car0\<lparr>CR_VSM_Alive := 7\<rparr>\<rparr>))
   \<and> \<not> longcontrol cc0
   \<and> scc12_cnt (fst (update env0 cc0 0 (cycle0\<lparr>CS := car0\<lparr>CR_VSM_Alive := 7\<rparr>\<rparr>))) = 8
   \<and> filter is_scc12 (snd (snd (update env0 cc0 0 (cycle0\<lparr>CS := car0\<lparr>CR_VSM_Alive := 7\<rparr>\<rparr>)))) = []
   \<and> filter is_scc11 (snd (snd (update env0 cc0 0 (cycle0\<lparr>CS := car0\<lparr>CR_VSM_Alive := 7\<rparr>\<rparr>)))) = []"
  using update_frame0_seed [of "cycle0\<lparr>CS := car0\<lparr>CR_VSM_Alive := 7\<rparr>\<rparr>" cc0 env0]
  by (simp add: filter_empty_conv cycle0_def car0_def cc0_def init_def)

text \<open>
  Claim C5 as stated fails: with the echo 7, the radar present and no longitudinal
  control, the counter after frame 0 is not 7.
\<close>

theorem frame0_seed_is_not_echo:
  "CR_VSM_Alive (CS (cycle0\<lparr>CS := car0\<lparr>CR_VSM_Alive := 7\<rparr>\<rparr>)) = 7
   \<and> \<not> no_radar (CS (cycle0\<lparr>CS := car0\<lparr>CR_VSM_Alive := 7\<rparr>\<rparr>))
   \<and> \<not> longcontrol cc0
   \<and> scc12_cnt (fst (update env0 cc0 0 (cycle0\<lparr>CS := car0\<lparr>CR_VSM_Alive := 7\<rparr>\<rparr>))) \<noteq> 7"
  by (simp add: update_scc12_cnt cycle0_def car0_def cc0_def init_def)

subsection \<open>The blinker countdown\<close>

lemma lateral_gate_timer:
  "snd (lateral_gate e self c) =
     (let t = (if out_leftBlinker (CS c) \<or> out_rightBlinker (CS c) then 0.5 / DT_CTRL e
               else turning_signal_timer self)
      in if t > 0 then t - 1 else t)"
  by (simp add: lateral_gate_def Let_def)

lemma iface_update_alert:
  "turning_indicator_alert (CC (fst (iface_update e i r))) =
     ((ret_leftBlinker r \<or> ret_rightBlinker r \<or> turning_signal_timer (CC i) \<noteq> 0)
        \<and> ret_vEgo r < LANE_CHANGE_SPEED_MIN e - 1.2)"
  by (simp add: iface_update_def Let_def)

text \<open>
  Claim C6, amended. In every cycle in which a blinker is active (whether or not it was
  active in the cycle before), the countdown is set to 0.5 seconds worth of cycles
  (\<open>0.5 / DT_CTRL\<close>) and decremented once in the same cycle; in a cycle without an
  active blinker a positive countdown decrements by exactly one and a countdown of zero
  stays zero; whenever the turning-indicator alert (set by the interface from the
  blinkers, the countdown and the speed) holds and the speed is below 2 km/h, the applied
  steering torque is zero. The last conjunct is the condition that the interface
  computes.
\<close>

theorem blinker_countdown:
  "(0 < DT_CTRL e \<and> (out_leftBlinker (CS c) \<or> out_rightBlinker (CS c))
      \<longrightarrow> turning_signal_timer (fst (update e self frame c)) = 0.5 / DT_CTRL e - 1)
   \<and> (\<not> out_leftBlinker (CS c) \<and> \<not> out_rightBlinker (CS c) \<and> 0 < turning_signal_timer self
      \<longrightarrow> turning_signal_timer (fst (update e self frame c)) = turning_signal_timer self - 1)
   \<and> (\<not> out_leftBlinker (CS c) \<and> \<not> out_rightBlinker (CS c) \<and> turning_signal_timer self = 0
      \<longrightarrow> turning_signal_timer (fst (update e self frame c)) = 0)
   \<and> (turning_indicator_alert self \<and> vEgo (CS c) < 2 * KPH_TO_MS e
      \<longrightarrow> apply_steer_last (fst (update e self frame c)) = 0
          \<and> (\<forall>m. Lkas11 m \<in> set (snd (snd (update e self frame c))) \<longrightarrow> lkas_apply_steer m = 0))
   \<and> (turning_indicator_alert (CC (fst (iface_update e i r)))
        = ((ret_leftBlinker r \<or> ret_rightBlinker r \<or> turning_signal_timer (CC i) \<noteq> 0)
            \<and> ret_vEgo r < LANE_CHANGE_SPEED_MIN e - 1.2))"
proof -
  have t: "turning_signal_timer (fst (update e self frame c)) =
     (let t = (if out_leftBlinker (CS c) \<or> out_rightBlinker (CS c) then 0.5 / DT_CTRL e
               else turning_signal_timer self)
      in if t > 0 then t - 1 else t)"
    by (simp only: update_turning_signal_timer lateral_gate_timer)
  have steer: "apply_steer_last (fst (update e self frame c)) = 0
      \<and> (\<forall>m. Lkas11 m \<in> set (snd (snd (update e self frame c))) \<longrightarrow> lkas_apply_steer m = 0)"
    if "turning_indicator_alert self" and "vEgo (CS c) < 2 * KPH_TO_MS e"
  proof -
    have "\<not> fst (lateral_gate e self c)"
      using that by (rule lateral_gate_alert)
    then have "apply_steer_last (fst (update e self frame c)) = 0"
      by (simp add: update_apply_steer_last)
    then show ?thesis
      using update_lkas11_steer [of _ e self frame c] by auto
  qed
  show ?thesis
    using steer by (simp add: t Let_def iface_update_alert)
qed

text \<open>
  With \<open>DT_CTRL = 0.01\<close>: a cycle with the left blinker on leaves the countdown at 49; a
  cycle without blinker takes 49 to 48 and leaves 0 at 0; with the alert set and the car
  at 0.5 m/s the torque is zero although the planner asks for full steering.
\<close>

theorem blinker_countdown_witness:
  "turning_signal_timer (fst (update env0 cc0 0 blink)) = 49
   \<and> turning_signal_timer (fst (update env0 (cc0\<lparr>turning_signal_timer := 49\<rparr>) 1 cycle0)) = 48
   \<and> turning_signal_timer (fst (update env0 cc0 1 cycle0)) = 0
   \<and> apply_steer_last (fst (update env0 (cc0\<lparr>turning_indicator_alert := True\<rparr>) 0
          (blink\<lparr>steer := 1\<rparr>))) = 0"
  using blinker_countdown [of env0 blink cc0 0]
    blinker_countdown [of env0 cycle0 "cc0\<lparr>turning_signal_timer := 49\<rparr>" 1]
    blinker_countdown [of env0 cycle0 cc0 1]
    blinker_countdown [of env0 "blink\<lparr>steer := 1\<rparr>" "cc0\<lparr>turning_indicator_alert := True\<rparr>" 0]
  by (simp add: env0_def blink_def cycle0_def car0_def cc0_def init_def)

text \<open>
  Claim C6 as stated fails: in two consecutive cycles with the blinker on, the second
  cycle sees no transition to active and a nonzero countdown (49), yet the countdown is
  set again and ends at 49, not at 48.
\<close>

theorem blinker_level_resets_countdown:
  "turning_signal_timer (fst (run env0 cc0 0 [blink])) = 49
   \<and> turning_signal_timer (fst (run env0 cc0 0 [blink, blink])) = 49"
  by (simp add: update_turning_signal_timer lateral_gate_timer Let_def split_def
        env0_def blink_def cycle0_def car0_def)

subsection \<open>The release of the decelerate button\<close>

lemma handle_button_enable:
  "\<not> longcontrol cc \<Longrightarrow>
   buttonEnable \<in> set (handle_button cc en evs b)
     \<longleftrightarrow> buttonEnable \<in> set evs \<or> (en \<and> be_type b = decelCruise \<and> \<not> pressed b)"
  by (auto simp add: handle_button_def Let_def)

lemma foldl_handle_button_enable:
  "\<not> longcontrol cc \<Longrightarrow>
   buttonEnable \<in> set (foldl (handle_button cc en) evs bs)
     \<longleftrightarrow> buttonEnable \<in> set evs
         \<or> (en \<and> (\<exists>b \<in> set bs. be_type b = decelCruise \<and> \<not> pressed b))"
proof (induction bs arbitrary: evs)
  case Nil
  then show ?case by simp
next
  case (Cons b bs)
  show ?case
    using Cons.prems by (auto simp add: Cons.IH [OF Cons.prems] handle_button_enable)
qed

lemma iface_update_cruise_enabled:
  "cruise_enabled (snd (iface_update e i r)) =
     (if if_mad_mode_enabled i then ret_cruise_available r else ret_cruise_enabled r)"
  by (simp add: iface_update_def Let_def)

lemma alert_events_enable:
  "buttonEnable \<in> set (alert_events cc low mad r) \<longleftrightarrow> buttonEnable \<in> set (create_common_events r)"
  by (auto simp add: alert_events_def Let_def)

lemma iface_update_events:
  "events (snd (iface_update e i r)) =
     foldl (handle_button
              (CC i\<lparr>turning_indicator_alert := turning_indicator_alert (CC (fst (iface_update e i r)))\<rparr>)
              (cruise_enabled (snd (iface_update e i r))))
       (alert_events
          (CC i\<lparr>turning_indicator_alert := turning_indicator_alert (CC (fst (iface_update e i r)))\<rparr>)
          (low_speed_alert (fst (iface_update e i r))) (if_mad_mode_enabled i) r)
       (button_events e r)
     @ smoother_events r"
  by (simp add: iface_update_def Let_def inject_events_def)

lemma iface_update_enable_event:
  assumes "\<not> longcontrol (CC i)"
  shows "buttonEnable \<in> set (events (snd (iface_update e i r)))
     \<longleftrightarrow> buttonEnable \<in> set (create_common_events r)
         \<or> (cruise_enabled (snd (iface_update e i r))
              \<and> (\<exists>b \<in> set (button_events e r). be_type b = decelCruise \<and> \<not> pressed b))
         \<or> buttonEnable \<in> set (smoother_events r)"
proof -
  let ?cc = "CC i\<lparr>turning_indicator_alert := turning_indicator_alert (CC (fst (iface_update e i r)))\<rparr>"
  have nl: "\<not> longcontrol ?cc"
    using assms by simp
  show ?thesis
    unfolding iface_update_events
    by (auto simp add: foldl_handle_button_enable [OF nl] alert_events_enable)
qed

lemma button_events_decel_release:
  assumes "prev_cruise_buttons r = button_code e SET_DECEL"
      and "cruise_buttons r = 0"
      and "button_code e SET_DECEL \<noteq> 0"
      and "button_code e SET_DECEL \<noteq> button_code e RES_ACCEL"
  shows "\<exists>b \<in> set (button_events e r). be_type b = decelCruise \<and> \<not> pressed b"
  using assms by (simp add: button_events_def cruise_button_type_def Let_def)

text \<open>
  Claim C7. When the combined cruise-button code changes from the code of the decelerate
  (set) button to zero, and full longitudinal control is inactive: if cruise is enabled,
  the produced events contain "enable requested" (\<^verbatim>\<open>buttonEnable\<close>); if cruise is not
  enabled, the release produces no such event, that is, the event is among the produced
  events only if \<^verbatim>\<open>create_common_events\<close> or the smoother put it there. "Cruise
  enabled" is \<^verbatim>\<open>ret.cruiseState.enabled\<close> as the method reports it (the last conjunct):
  the value read from the car, or the cruise availability in mad mode. The integer
  codes of \<^verbatim>\<open>values.Buttons\<close> are parameters; the decelerate code is assumed to differ
  from zero and from the accelerate code.
\<close>

theorem decel_release_requests_enable:
  assumes "prev_cruise_buttons r = button_code e SET_DECEL"
      and "cruise_buttons r = 0"
      and "button_code e SET_DECEL \<noteq> 0"
      and "button_code e SET_DECEL \<noteq> button_code e RES_ACCEL"
      and "\<not> longcontrol (CC i)"
  shows "(cruise_enabled (snd (iface_update e i r))
            \<longrightarrow> buttonEnable \<in> set (events (snd (iface_update e i r))))
    \<and> (\<not> cruise_enabled (snd (iface_update e i r))
          \<longrightarrow> (buttonEnable \<in> set (events (snd (iface_update e i r)))
                \<longleftrightarrow> buttonEnable \<in> set (create_common_events r)
                    \<or> buttonEnable \<in> set (smoother_events r)))
    \<and> cruise_enabled (snd (iface_update e i r))
        = (if if_mad_mode_enabled i then ret_cruise_available r else ret_cruise_enabled r)"
  using button_events_decel_release [OF assms(1-4)]
  by (auto simp add: iface_update_enable_event [OF assms(5)] iface_update_cruise_enabled)

text \<open>
  With the codes 0 to 4: the release while cruise is enabled gives the event, the same
  release while cruise is not enabled gives none.
\<close>

theorem decel_release_requests_enable_witness:
  "buttonEnable \<in> set (events (snd (iface_update env0 iface0 release_decel)))
   \<and> buttonEnable \<notin> set (events (snd (iface_update env0 iface0
         (release_decel\<lparr>ret_cruise_enabled := False\<rparr>))))"
  using decel_release_requests_enable [of release_decel env0 iface0]
    decel_release_requests_enable [of "release_decel\<lparr>ret_cruise_enabled := False\<rparr>" env0 iface0]
  by (simp add: iface_update_cruise_enabled env0_def iface0_def release_decel_def cc0_def init_def)

subsection \<open>Runs\<close>

lemma update_resume_sends:
  "filter is_resume (snd (snd (update e self frame c))) = snd (auto_resume self c (CF_Clu_Vanz (CS c)))"
  by (simp add: update_sends Let_def auto_resume_sends filter_map comp_def)

lemma run_fst_Cons: "fst (run e s f (c # cs)) = fst (run e (fst (update e s f c)) (f + 1) cs)"
  by (simp add: split_def)

lemma run_snd_Cons:
  "snd (run e s f (c # cs)) = snd (snd (update e s f c)) # snd (run e (fst (update e s f c)) (f + 1) cs)"
  by (simp add: split_def)

lemma run_fst_snoc:
  "fst (run e s f (cs @ [c])) = fst (update e (fst (run e s f cs)) (f + int (length cs)) c)"
proof (induction cs arbitrary: s f)
  case Nil
  show ?case by (simp add: split_def)
next
  case (Cons a cs)
  show ?case
    by (simp add: run_fst_Cons Cons.IH add.assoc del: run.simps)
qed

lemma run_snd_snoc:
  "snd (run e s f (cs @ [c])) =
     snd (run e s f cs) @ [snd (snd (update e (fst (run e s f cs)) (f + int (length cs)) c))]"
proof (induction cs arbitrary: s f)
  case Nil
  show ?case by (simp add: split_def)
next
  case (Cons a cs)
  show ?case
    by (simp add: run_fst_Cons run_snd_Cons Cons.IH add.assoc del: run.simps)
qed

subsection \<open>The automatic resume: the baseline\<close>

lemma resume_press_needs_baseline:
  assumes "m \<in> set (snd (snd (update e self frame c)))" and "is_resume m"
  shows "standstill (CS c) \<and> last_lead_distance self \<noteq> 0
    \<and> lead_distance (CS c) \<noteq> last_lead_distance self
    \<and> last_lead_distance (fst (update e self frame c)) = last_lead_distance self"
proof -
  have "m \<in> set (filter is_resume (snd (snd (update e self frame c))))"
    using assms by simp
  then have "snd (auto_resume self c (CF_Clu_Vanz (CS c))) \<noteq> []"
    by (auto simp add: update_resume_sends)
  then show ?thesis
    by (simp add: auto_resume_sends update_resume_fields auto_resume_fields split: if_splits)
qed

lemma baseline_was_captured:
  assumes "last_lead_distance s = 0"
      and "last_lead_distance (fst (run e s f cs)) \<noteq> 0"
  shows "\<exists>c' \<in> set cs. standstill (CS c')
           \<and> lead_distance (CS c') = last_lead_distance (fst (run e s f cs))"
  using assms
proof (induction cs rule: rev_induct)
  case Nil
  then show ?case by simp
next
  case (snoc c cs)
  let ?s = "fst (run e s f cs)"
  have step: "last_lead_distance (fst (run e s f (cs @ [c]))) =
      (if standstill (CS c) then
         if last_lead_distance ?s = 0 then lead_distance (CS c) else last_lead_distance ?s
       else 0)"
    by (simp add: run_fst_snoc update_resume_fields auto_resume_fields)
  show ?case
  proof (cases "standstill (CS c) \<and> last_lead_distance ?s = 0")
    case True
    then show ?thesis
      using step by auto
  next
    case False
    then have same: "last_lead_distance (fst (run e s f (cs @ [c]))) = last_lead_distance ?s"
      and nz: "last_lead_distance ?s \<noteq> 0"
      using step snoc.prems(2) by (auto split: if_splits)
    from snoc.IH [OF snoc.prems(1) nz] show ?thesis
      using same by auto
  qed
qed

text \<open>
  Claim C10, amended. In every cycle in which the car reports cruise standstill and the
  stored baseline is 0, no resume-button message is emitted, the baseline becomes the
  lead distance of the snapshot (so 0 if that is 0), and the press counter and the
  cooldown counter are set to 0. A cycle emits a resume-button message only if the car
  reports standstill, the stored baseline is not 0 and the lead distance differs from
  it. Consequently, in a run that starts with the baseline 0 (as after construction),
  a cycle that emits a resume-button message comes after a standstill cycle with a
  lead distance that is not 0 and differs from the one now observed. Resume-button
  messages are the \<^verbatim>\<open>create_clu11\<close> messages with \<^verbatim>\<open>Buttons.RES_ACCEL\<close> that \<^verbatim>\<open>update\<close>
  builds.
\<close>

theorem resume_needs_captured_baseline:
  "(standstill (CS c) \<and> last_lead_distance self = 0
      \<longrightarrow> filter is_resume (snd (snd (update e self frame c))) = []
          \<and> last_lead_distance (fst (update e self frame c)) = lead_distance (CS c)
          \<and> resume_cnt (fst (update e self frame c)) = 0
          \<and> resume_wait_timer (fst (update e self frame c)) = 0)
   \<and> ((\<exists>m \<in> set (snd (snd (update e self frame c))). is_resume m)
      \<longrightarrow> standstill (CS c) \<and> last_lead_distance self \<noteq> 0
          \<and> lead_distance (CS c) \<noteq> last_lead_distance self)
   \<and> (last_lead_distance s0 = 0
        \<and> (\<exists>m \<in> set (snd (snd (update e (fst (run e s0 f0 cs)) (f0 + int (length cs)) c))).
              is_resume m)
      \<longrightarrow> (\<exists>c' \<in> set cs. standstill (CS c') \<and> lead_distance (CS c') \<noteq> 0
              \<and> lead_distance (CS c) \<noteq> lead_distance (CS c')))"
proof -
  have a: "filter is_resume (snd (snd (update e self frame c))) = []
          \<and> last_lead_distance (fst (update e self frame c)) = lead_distance (CS c)
          \<and> resume_cnt (fst (update e self frame c)) = 0
          \<and> resume_wait_timer (fst (update e self frame c)) = 0"
    if "standstill (CS c)" and "last_lead_distance self = 0"
    using that
    by (simp add: update_resume_sends auto_resume_sends update_resume_fields auto_resume_fields)
  have b: "standstill (CS c) \<and> last_lead_distance self \<noteq> 0
          \<and> lead_distance (CS c) \<noteq> last_lead_distance self"
    if "\<exists>m \<in> set (snd (snd (update e self frame c))). is_resume m"
    using that resume_press_needs_baseline [of _ e self frame c] by blast
  have c: "\<exists>c' \<in> set cs. standstill (CS c') \<and> lead_distance (CS c') \<noteq> 0
              \<and> lead_distance (CS c) \<noteq> lead_distance (CS c')"
    if z: "last_lead_distance s0 = 0"
      and p: "\<exists>m \<in> set (snd (snd (update e (fst (run e s0 f0 cs)) (f0 + int (length cs)) c))).
              is_resume m"
  proof -
    let ?s = "fst (run e s0 f0 cs)"
    from p have nz: "last_lead_distance ?s \<noteq> 0"
      and ne: "lead_distance (CS c) \<noteq> last_lead_distance ?s"
      using resume_press_needs_baseline [of _ e ?s "f0 + int (length cs)" c] by blast+
    from baseline_was_captured [OF z nz] show ?thesis
      using nz ne by auto
  qed
  show ?thesis
    using a b c by blast
qed

text \<open>
  From the initial state, a standstill cycle with lead distance 0 emits nothing and
  leaves the three fields at 0; after a standstill cycle with lead distance 5, a
  standstill cycle with lead distance 6 emits a resume-button message.
\<close>

theorem resume_needs_captured_baseline_witness:
  "filter is_resume (snd (snd (update env0 cc0 0 (still 0)))) = []
   \<and> last_lead_distance (fst (update env0 cc0 0 (still 0))) = 0
   \<and> resume_cnt (fst (update env0 cc0 0 (still 0))) = 0
   \<and> resume_wait_timer (fst (update env0 cc0 0 (still 0))) = 0
   \<and> (\<exists>m \<in> set (snd (snd (update env0 (fst (run env0 cc0 0 [still 5])) 1 (still 6)))). is_resume m)
   \<and> (\<exists>c' \<in> set [still 5]. standstill (CS c') \<and> lead_distance (CS c') \<noteq> 0
              \<and> lead_distance (CS (still 6)) \<noteq> lead_distance (CS c'))"
  using resume_needs_captured_baseline [of "still 0" cc0 env0 0 cc0 0 "[still 5]"]
    resume_needs_captured_baseline [of "still 6" "fst (run env0 cc0 0 [still 5])" env0 1 cc0 0 "[still 5]"]
  by (simp add: update_sends Let_def split_def auto_resume_sends update_resume_fields
        auto_resume_fields still_def cycle0_def car0_def cc0_def init_def)

text \<open>
  Claim C10 as stated fails: after a standstill cycle that captured the baseline 5, a
  standstill cycle whose lead distance is 0 emits a resume-button message, the press
  counter becomes 1 and the baseline stays 5.
\<close>

theorem resume_press_at_lead_distance_zero:
  "standstill (CS (still 0)) \<and> lead_distance (CS (still 0)) = 0
   \<and> filter is_resume (snd (run env0 cc0 0 [still 5, still 0]) ! 1) = [Clu11 0 0 RES_ACCEL 72]
   \<and> resume_cnt (fst (run env0 cc0 0 [still 5, still 0])) = 1
   \<and> last_lead_distance (fst (run env0 cc0 0 [still 5, still 0])) = 5"
  by (simp add: split_def update_resume_sends auto_resume_sends update_resume_fields
        auto_resume_fields still_def cycle0_def car0_def cc0_def init_def)

subsection \<open>The automatic resume: bursts and cooldown\<close>

lemma resume_step_count:
  assumes "standstill (CS c)"
      and "0 \<le> resume_cnt s \<and> resume_cnt s \<le> 7 \<and> (last_lead_distance s = 0 \<longrightarrow> resume_cnt s = 0)"
  shows "int (length (filter is_resume (snd (snd (update e s f c))))) + resume_cnt s
           = 8 * int (length (filter (\<lambda>m. msg_cnt m = 7)
                                (filter is_resume (snd (snd (update e s f c))))))
             + resume_cnt (fst (update e s f c))
    \<and> 0 \<le> resume_cnt (fst (update e s f c)) \<and> resume_cnt (fst (update e s f c)) \<le> 7
    \<and> (last_lead_distance (fst (update e s f c)) = 0 \<longrightarrow> resume_cnt (fst (update e s f c)) = 0)"
  using assms
  by (auto simp add: update_resume_sends auto_resume_sends update_resume_fields auto_resume_fields)

lemma resume_run_count:
  assumes "\<forall>c \<in> set cs. standstill (CS c)"
      and "0 \<le> resume_cnt s \<and> resume_cnt s \<le> 7 \<and> (last_lead_distance s = 0 \<longrightarrow> resume_cnt s = 0)"
  shows "int (length (filter is_resume (concat (snd (run e s f cs))))) + resume_cnt s
           = 8 * int (length (filter (\<lambda>m. msg_cnt m = 7)
                                (filter is_resume (concat (snd (run e s f cs))))))
             + resume_cnt (fst (run e s f cs))
    \<and> 0 \<le> resume_cnt (fst (run e s f cs)) \<and> resume_cnt (fst (run e s f cs)) \<le> 7"
  using assms
proof (induction cs arbitrary: s f)
  case Nil
  then show ?case by simp
next
  case (Cons c cs)
  let ?s = "fst (update e s f c)"
  have st: "standstill (CS c)" and rest: "\<forall>c \<in> set cs. standstill (CS c)"
    using Cons.prems(1) by simp_all
  note step = resume_step_count [OF st Cons.prems(2), of e f]
  have inv: "0 \<le> resume_cnt ?s \<and> resume_cnt ?s \<le> 7
      \<and> (last_lead_distance ?s = 0 \<longrightarrow> resume_cnt ?s = 0)"
    using step by simp
  note ih = Cons.IH [OF rest inv, of "f + 1"]
  show ?case
    using step ih by (simp add: run_fst_Cons run_snd_Cons del: run.simps)
qed

lemma resume_episode_count:
  assumes "cs \<noteq> []" and "\<forall>c \<in> set cs. standstill (CS c)" and "last_lead_distance s = 0"
  shows "int (length (filter is_resume (concat (snd (run e s f cs)))))
           = 8 * int (length (filter (\<lambda>m. msg_cnt m = 7)
                                (filter is_resume (concat (snd (run e s f cs))))))
             + resume_cnt (fst (run e s f cs))
    \<and> 0 \<le> resume_cnt (fst (run e s f cs)) \<and> resume_cnt (fst (run e s f cs)) \<le> 7"
proof -
  obtain c cs' where cs: "cs = c # cs'"
    using assms(1) by (cases cs) auto
  let ?s = "fst (update e s f c)"
  have st: "standstill (CS c)" and rest: "\<forall>c \<in> set cs'. standstill (CS c)"
    using assms(2) cs by simp_all
  have first: "filter is_resume (snd (snd (update e s f c))) = []" "resume_cnt ?s = 0"
    using st assms(3)
    by (simp_all add: update_resume_sends auto_resume_sends update_resume_fields auto_resume_fields)
  have inv: "0 \<le> resume_cnt ?s \<and> resume_cnt ?s \<le> 7
      \<and> (last_lead_distance ?s = 0 \<longrightarrow> resume_cnt ?s = 0)"
    using first by simp
  note r = resume_run_count [OF rest inv, of e "f + 1"]
  show ?thesis
    using first r by (simp add: cs run_fst_Cons run_snd_Cons del: run.simps)
qed

lemma resume_wait_timer_nonneg:
  assumes "0 \<le> resume_wait_timer s" and "\<forall>c \<in> set cs. 0 \<le> get_wait_count c"
  shows "0 \<le> resume_wait_timer (fst (run e s f cs))"
  using assms
proof (induction cs arbitrary: s f)
  case Nil
  then show ?case by simp
next
  case (Cons c cs)
  let ?s = "fst (update e s f c)"
  have w: "0 \<le> get_wait_count c" and rest: "\<forall>c \<in> set cs. 0 \<le> get_wait_count c"
    using Cons.prems(2) by simp_all
  have "0 \<le> resume_wait_timer ?s"
    using Cons.prems(1) w by (simp add: update_resume_fields auto_resume_fields)
  from Cons.IH [OF this rest, of "f + 1"] show ?case
    by (simp add: run_fst_Cons del: run.simps)
qed

lemma press_run:
  "last_lead_distance s = 5 \<Longrightarrow> resume_wait_timer s = 0 \<Longrightarrow> 0 \<le> resume_cnt s
   \<Longrightarrow> resume_cnt s + int n \<le> 7
   \<Longrightarrow> last_lead_distance (fst (run env0 s f (replicate n (still 6)))) = 5
       \<and> resume_wait_timer (fst (run env0 s f (replicate n (still 6)))) = 0
       \<and> resume_cnt (fst (run env0 s f (replicate n (still 6)))) = resume_cnt s + int n"
proof (induction n arbitrary: s f)
  case 0
  then show ?case by simp
next
  case (Suc n)
  let ?s = "fst (update env0 s f (still 6))"
  have step: "last_lead_distance ?s = 5" "resume_wait_timer ?s = 0" "resume_cnt ?s = resume_cnt s + 1"
    using Suc.prems
    by (simp_all add: update_resume_fields auto_resume_fields still_def cycle0_def car0_def)
  have "0 \<le> resume_cnt ?s" "resume_cnt ?s + int n \<le> 7"
    using step Suc.prems by simp_all
  from Suc.IH [OF step(1,2) this, of "f + 1"] show ?case
    using step(3) by (simp add: run_fst_Cons del: run.simps)
qed

text \<open>
  Claim C1, amended. A press is a resume-button message built by \<^verbatim>\<open>update\<close>; it carries
  the press counter before the increment.
  \<^item> In a standstill cycle with a captured baseline, the smoother inactive, no positive
    cooldown and a lead distance different from the baseline, exactly one press is
    emitted; if it is the 8th of its burst (the press counter is 7) the press counter is
    reset to zero and the cooldown counter is set to the wait count supplied by the
    smoother, otherwise the press counter increases by one and the cooldown counter is
    unchanged.
  \<^item> After every run that starts with a cooldown counter that is not negative (as after
    construction) and in which the smoother supplies no negative wait count, in the next
    cycle, if the car reports standstill and the cooldown counter is nonzero: no press
    is emitted; if the baseline of the episode is captured (not 0), the cooldown counter
    decrements by one when the smoother is not active and is held unchanged when the
    smoother reports itself active; if the baseline is not captured yet (the first
    cycle of an episode, with a cooldown left over from an earlier episode), the
    cooldown counter is reset to zero.
  \<^item> In every non-empty sequence of cycles forming one standstill episode (standstill in
    every cycle, baseline 0 at its start), the number of presses emitted equals 8 times
    the number of presses that completed a burst and set the cooldown (those carrying
    the counter 7) plus the final press counter, which lies between 0 and 7: at most 8
    presses are emitted before a cooldown is set.
\<close>

theorem resume_burst_and_cooldown:
  "(standstill (CS c) \<and> last_lead_distance self \<noteq> 0 \<and> \<not> is_active c
      \<and> resume_wait_timer self \<le> 0 \<and> lead_distance (CS c) \<noteq> last_lead_distance self
      \<longrightarrow> filter is_resume (snd (snd (update e self frame c)))
            = [Clu11 (resume_cnt self) (scc_bus (CS c)) RES_ACCEL (CF_Clu_Vanz (CS c))]
          \<and> (7 \<le> resume_cnt self
               \<longrightarrow> resume_cnt (fst (update e self frame c)) = 0
                   \<and> resume_wait_timer (fst (update e self frame c)) = get_wait_count c)
          \<and> (resume_cnt self < 7
               \<longrightarrow> resume_cnt (fst (update e self frame c)) = resume_cnt self + 1
                   \<and> resume_wait_timer (fst (update e self frame c)) = resume_wait_timer self))
   \<and> (0 \<le> resume_wait_timer s1 \<and> (\<forall>c' \<in> set pre. 0 \<le> get_wait_count c')
        \<and> standstill (CS c) \<and> resume_wait_timer (fst (run e s1 f1 pre)) \<noteq> 0
      \<longrightarrow> filter is_resume
            (snd (snd (update e (fst (run e s1 f1 pre)) (f1 + int (length pre)) c))) = []
          \<and> (last_lead_distance (fst (run e s1 f1 pre)) \<noteq> 0 \<and> \<not> is_active c
               \<longrightarrow> resume_wait_timer
                     (fst (update e (fst (run e s1 f1 pre)) (f1 + int (length pre)) c))
                   = resume_wait_timer (fst (run e s1 f1 pre)) - 1)
          \<and> (last_lead_distance (fst (run e s1 f1 pre)) \<noteq> 0 \<and> is_active c
               \<longrightarrow> resume_wait_timer
                     (fst (update e (fst (run e s1 f1 pre)) (f1 + int (length pre)) c))
                   = resume_wait_timer (fst (run e s1 f1 pre)))
          \<and> (last_lead_distance (fst (run e s1 f1 pre)) = 0
               \<longrightarrow> resume_wait_timer
                     (fst (update e (fst (run e s1 f1 pre)) (f1 + int (length pre)) c)) = 0))
   \<and> (cs \<noteq> [] \<and> (\<forall>c \<in> set cs. standstill (CS c)) \<and> last_lead_distance s0 = 0
      \<longrightarrow> int (length (filter is_resume (concat (snd (run e s0 f0 cs)))))
            = 8 * int (length (filter (\<lambda>m. msg_cnt m = 7)
                                 (filter is_resume (concat (snd (run e s0 f0 cs))))))
              + resume_cnt (fst (run e s0 f0 cs))
          \<and> 0 \<le> resume_cnt (fst (run e s0 f0 cs)) \<and> resume_cnt (fst (run e s0 f0 cs)) \<le> 7)"
proof -
  have press: "filter is_resume (snd (snd (update e self frame c)))
            = [Clu11 (resume_cnt self) (scc_bus (CS c)) RES_ACCEL (CF_Clu_Vanz (CS c))]
          \<and> (7 \<le> resume_cnt self
               \<longrightarrow> resume_cnt (fst (update e self frame c)) = 0
                   \<and> resume_wait_timer (fst (update e self frame c)) = get_wait_count c)
          \<and> (resume_cnt self < 7
               \<longrightarrow> resume_cnt (fst (update e self frame c)) = resume_cnt self + 1
                   \<and> resume_wait_timer (fst (update e self frame c)) = resume_wait_timer self)"
    if "standstill (CS c)" "last_lead_distance self \<noteq> 0" "\<not> is_active c"
      "resume_wait_timer self \<le> 0" "lead_distance (CS c) \<noteq> last_lead_distance self"
    using that
    by (simp add: update_resume_sends auto_resume_sends update_resume_fields auto_resume_fields)
  have cool: "filter is_resume (snd (snd (update e s f c))) = []
          \<and> (last_lead_distance s \<noteq> 0 \<and> \<not> is_active c
               \<longrightarrow> resume_wait_timer (fst (update e s f c)) = resume_wait_timer s - 1)
          \<and> (last_lead_distance s \<noteq> 0 \<and> is_active c
               \<longrightarrow> resume_wait_timer (fst (update e s f c)) = resume_wait_timer s)
          \<and> (last_lead_distance s = 0 \<longrightarrow> resume_wait_timer (fst (update e s f c)) = 0)"
    if "standstill (CS c)" "0 < resume_wait_timer s" for s f
    using that
    by (simp add: update_resume_sends auto_resume_sends update_resume_fields auto_resume_fields)
  have pos: "0 < resume_wait_timer (fst (run e s1 f1 pre))"
    if "0 \<le> resume_wait_timer s1" "\<forall>c' \<in> set pre. 0 \<le> get_wait_count c'"
      "resume_wait_timer (fst (run e s1 f1 pre)) \<noteq> 0"
    using resume_wait_timer_nonneg [OF that(1,2), of e f1] that(3) by simp
  show ?thesis
    using press cool [of "fst (run e s1 f1 pre)" "f1 + int (length pre)"] pos
      resume_episode_count [of cs s0 e f0]
    by blast
qed

text \<open>
  The 8th press sets the cooldown to the wait count 3; with the cooldown at 3 and the
  baseline captured a cycle emits nothing and takes the cooldown to 2; an episode of
  three cycles from the initial state emits two presses.
\<close>

theorem resume_burst_and_cooldown_witness:
  "filter is_resume (snd (snd (update env0 (cc0\<lparr>last_lead_distance := 5, resume_cnt := 7\<rparr>) 8
       (still 6)))) = [Clu11 7 0 RES_ACCEL 72]
   \<and> resume_cnt (fst (update env0 (cc0\<lparr>last_lead_distance := 5, resume_cnt := 7\<rparr>) 8 (still 6))) = 0
   \<and> resume_wait_timer (fst (update env0 (cc0\<lparr>last_lead_distance := 5, resume_cnt := 7\<rparr>) 8
       (still 6))) = 3
   \<and> filter is_resume (snd (snd (update env0
       (cc0\<lparr>last_lead_distance := 5, resume_wait_timer := 3\<rparr>) 9 (still 6)))) = []
   \<and> resume_wait_timer (fst (update env0
       (cc0\<lparr>last_lead_distance := 5, resume_wait_timer := 3\<rparr>) 9 (still 6))) = 2
   \<and> length (filter is_resume (concat (snd (run env0 cc0 0 [still 5, still 6, still 6])))) = 2
   \<and> resume_cnt (fst (run env0 cc0 0 [still 5, still 6, still 6])) = 2"
  using resume_burst_and_cooldown [where c = "still 6"
      and self = "cc0\<lparr>last_lead_distance := 5, resume_cnt := 7\<rparr>" and e = env0 and frame = 8
      and ?s1.0 = "cc0\<lparr>last_lead_distance := 5, resume_wait_timer := 3\<rparr>" and ?f1.0 = 9
      and pre = "[]" and cs = "[still 5, still 6, still 6]" and ?s0.0 = cc0 and ?f0.0 = 0]
  by (simp add: split_def update_resume_sends auto_resume_sends update_resume_fields
        auto_resume_fields still_def cycle0_def car0_def cc0_def init_def)

text \<open>
  Claim C1 as stated fails, in two ways. From the initial state, in one standstill
  episode: the baseline 5 is captured, eight cycles with lead distance 6 emit eight
  presses and set the cooldown counter to 3. If the smoother reports itself active in
  the next standstill cycle, the nonzero cooldown counter stays at 3 instead of
  decrementing. If instead the car moves for one cycle (the cooldown counter stays 3
  and the baseline is reset) and then reports standstill again, the first cycle of the
  new episode resets the nonzero cooldown counter to 0 instead of decrementing it to 2.
\<close>

theorem cooldown_held_or_reset:
  "standstill (CS (still 5)) \<and> standstill (CS (still 6))
   \<and> standstill (CS ((still 6)\<lparr>is_active := True\<rparr>))
   \<and> resume_wait_timer (fst (run env0 cc0 0 (still 5 # replicate 8 (still 6)))) = 3
   \<and> resume_wait_timer (fst (run env0 cc0 0
        (still 5 # replicate 8 (still 6) @ [(still 6)\<lparr>is_active := True\<rparr>]))) = 3
   \<and> \<not> standstill (CS cycle0)
   \<and> resume_wait_timer (fst (run env0 cc0 0 (still 5 # replicate 8 (still 6) @ [cycle0]))) = 3
   \<and> resume_wait_timer (fst (run env0 cc0 0
        (still 5 # replicate 8 (still 6) @ [cycle0, still 6]))) = 0"
proof -
  let ?s1 = "fst (update env0 cc0 0 (still 5))"
  let ?s8 = "fst (run env0 ?s1 1 (replicate 7 (still 6)))"
  let ?s9 = "fst (run env0 cc0 0 (still 5 # replicate 8 (still 6)))"
  let ?s10 = "fst (run env0 cc0 0 ((still 5 # replicate 8 (still 6)) @ [cycle0]))"
  have s1: "last_lead_distance ?s1 = 5" "resume_wait_timer ?s1 = 0" "resume_cnt ?s1 = 0"
    by (simp_all add: update_resume_fields auto_resume_fields still_def cycle0_def car0_def
          cc0_def init_def)
  have s8: "last_lead_distance ?s8 = 5 \<and> resume_wait_timer ?s8 = 0 \<and> resume_cnt ?s8 = 7"
    using press_run [of ?s1 7 1] s1 by simp
  have eq8: "still 5 # replicate 8 (still 6) = (still 5 # replicate 7 (still 6)) @ [still 6]"
    by (simp add: numeral_eq_Suc)
  have s9eq: "?s9 = fst (update env0 ?s8 8 (still 6))"
    unfolding eq8 run_fst_snoc by (simp add: run_fst_Cons del: run.simps)
  have s9: "last_lead_distance ?s9 = 5" "resume_wait_timer ?s9 = 3"
    unfolding s9eq using s8
    by (simp_all add: update_resume_fields auto_resume_fields still_def cycle0_def car0_def)
  have eq9: "still 5 # replicate 8 (still 6) @ [c] = (still 5 # replicate 8 (still 6)) @ [c]" for c
    by simp
  have held: "resume_wait_timer (fst (run env0 cc0 0
        (still 5 # replicate 8 (still 6) @ [(still 6)\<lparr>is_active := True\<rparr>]))) = 3"
    unfolding eq9 run_fst_snoc using s9
    by (simp add: update_resume_fields auto_resume_fields still_def cycle0_def car0_def
          del: run.simps)
  have s10: "last_lead_distance ?s10 = 0" "resume_wait_timer ?s10 = 3"
    unfolding run_fst_snoc using s9
    by (simp_all add: update_resume_fields auto_resume_fields cycle0_def car0_def
          del: run.simps)
  have eq10: "still 5 # replicate 8 (still 6) @ [cycle0, still 6]
      = ((still 5 # replicate 8 (still 6)) @ [cycle0]) @ [still 6]"
    by simp
  have reset: "resume_wait_timer (fst (run env0 cc0 0
        (still 5 # replicate 8 (still 6) @ [cycle0, still 6]))) = 0"
    unfolding eq10 run_fst_snoc [of env0 cc0 0 "(still 5 # replicate 8 (still 6)) @ [cycle0]"]
    using s10
    by (simp add: update_resume_fields auto_resume_fields still_def cycle0_def car0_def
          del: run.simps)
  have moved: "resume_wait_timer (fst (run env0 cc0 0
        (still 5 # replicate 8 (still 6) @ [cycle0]))) = 3"
    using s10(2) by (simp only: eq9)
  have st: "standstill (CS (still 5)) \<and> standstill (CS (still 6))
      \<and> standstill (CS ((still 6)\<lparr>is_active := True\<rparr>)) \<and> \<not> standstill (CS cycle0)"
    by (simp add: still_def cycle0_def car0_def)
  show ?thesis
    using st s9(2) held moved reset by blast
qed

subsection \<open>The sequence counters\<close>

lemma update_lkas11_bus0_count:
  "length (filter (is_lkas11_on 0) (snd (snd (update e s f c)))) = 1"
  by (simp add: update_sends Let_def auto_resume_sends filter_map comp_def)

lemma update_scc12_counters:
  "map msg_cnt (filter is_scc12 (snd (snd (update e s f c)))) =
     (if longcontrol s \<and> cruiseState_enabled (CS c) \<and> (scc_bus (CS c) \<noteq> 0 \<or> \<not> scc_live s)
           \<and> f mod 2 = 0
      then [(if f = 0 then (if \<not> no_radar (CS c) then CR_VSM_Alive (CS c) + 1 else 0)
             else scc12_cnt s) mod 15]
      else [])"
  by (simp add: update_sends Let_def auto_resume_sends filter_map comp_def
        advance_counts_scc12_cnt)

lemma counters_cons:
  "(b mod 15) # map (\<lambda>k. (b mod 15 + 1 + int k) mod 15) [0..<n]
     = map (\<lambda>k. (b + int k) mod (15::int)) [0..<Suc n]"
proof -
  have "(b + int (Suc i)) mod 15 = (b mod 15 + 1 + int i) mod 15" for i
    by (simp add: add.assoc mod_add_left_eq)
  then show ?thesis
    by (simp only: map_upt_Suc) simp
qed

lemma counters_same:
  "map (\<lambda>k. (b mod 15 + int k) mod 15) [0..<n] = map (\<lambda>k. (b + int k) mod (15::int)) [0..<n]"
  by (simp add: mod_add_left_eq)

lemma mod16_step: "((l + 1) mod 16 + 1 + int n) mod 16 = (l + 1 + int (Suc n)) mod (16::int)"
  by (simp add: add.assoc mod_add_left_eq)

lemma mod15_step: "(b mod 15 + k + n) mod 15 = (b + (k + n)) mod (15::int)"
  by (simp add: add.assoc mod_add_left_eq)

lemma run_lkas11_cnt:
  assumes "0 \<le> f"
  shows "lkas11_cnt (fst (run e s f (c # cs)))
     = ((if f = 0 then CF_Lkas_MsgCount (CS c) else lkas11_cnt s) + 1 + int (length cs)) mod 16"
  using assms
proof (induction cs arbitrary: s f c)
  case Nil
  show ?case by (simp add: split_def update_lkas11_cnt)
next
  case (Cons c' cs)
  let ?s = "fst (update e s f c)"
  let ?l = "if f = 0 then CF_Lkas_MsgCount (CS c) else lkas11_cnt s"
  have f1: "0 \<le> f + 1" "f + 1 \<noteq> 0"
    using Cons.prems by simp_all
  have s1: "lkas11_cnt ?s = (?l + 1) mod 16"
    by (simp only: update_lkas11_cnt)
  have "lkas11_cnt (fst (run e s f (c # c' # cs))) = lkas11_cnt (fst (run e ?s (f + 1) (c' # cs)))"
    by (simp only: run_fst_Cons)
  also have "\<dots> = (lkas11_cnt ?s + 1 + int (length cs)) mod 16"
    using Cons.IH [OF f1(1), of ?s c'] f1(2) by simp
  also have "\<dots> = (?l + 1 + int (length (c' # cs))) mod 16"
    unfolding s1 by (simp only: mod16_step list.size) simp
  finally show ?case .
qed

lemma run_lkas11_bus0_count:
  "length (filter (is_lkas11_on 0) (concat (snd (run e s f cs)))) = length cs"
proof (induction cs arbitrary: s f)
  case Nil
  show ?case by simp
next
  case (Cons c cs)
  show ?case
    by (simp add: run_snd_Cons update_lkas11_bus0_count Cons.IH del: run.simps)
qed

lemma update_scc12_step:
  fixes e s f c
  defines "b \<equiv> (if f = 0 then (if \<not> no_radar (CS c) then CR_VSM_Alive (CS c) + 1 else 0)
                  else scc12_cnt s)"
  defines "M \<equiv> filter is_scc12 (snd (snd (update e s f c)))"
  shows "(M = [] \<and> scc12_cnt (fst (update e s f c)) = b mod 15)
       \<or> (map msg_cnt M = [b mod 15] \<and> scc12_cnt (fst (update e s f c)) = b mod 15 + 1)"
  unfolding b_def M_def
  using update_scc12_counters [of e s f c]
  by (auto simp add: update_scc12_cnt split: if_splits)

lemma run_scc12_counters:
  assumes "0 \<le> f"
  shows "map msg_cnt (filter is_scc12 (concat (snd (run e s f (c # cs)))))
      = map (\<lambda>k. ((if f = 0 then (if \<not> no_radar (CS c) then CR_VSM_Alive (CS c) + 1 else 0)
                    else scc12_cnt s) + int k) mod 15)
          [0..<length (filter is_scc12 (concat (snd (run e s f (c # cs)))))]
    \<and> scc12_cnt (fst (run e s f (c # cs))) mod 15
        = ((if f = 0 then (if \<not> no_radar (CS c) then CR_VSM_Alive (CS c) + 1 else 0)
            else scc12_cnt s)
           + int (length (filter is_scc12 (concat (snd (run e s f (c # cs))))))) mod 15
    \<and> 0 \<le> scc12_cnt (fst (run e s f (c # cs)))
    \<and> scc12_cnt (fst (run e s f (c # cs))) \<le> 15"
  using assms
proof (induction cs arbitrary: s f c)
  case Nil
  define b where "b = (if f = 0 then (if \<not> no_radar (CS c) then CR_VSM_Alive (CS c) + 1 else 0)
                  else scc12_cnt s)"
  define M where "M = filter is_scc12 (snd (snd (update e s f c)))"
  have run1: "fst (run e s f [c]) = fst (update e s f c)"
    "concat (snd (run e s f [c])) = snd (snd (update e s f c))"
    by (simp_all add: split_def)
  have bnd: "0 \<le> b mod 15" "b mod 15 < 15"
    by simp_all
  from update_scc12_step [of e s f c]
  have "(M = [] \<and> scc12_cnt (fst (update e s f c)) = b mod 15)
       \<or> (map msg_cnt M = [b mod 15] \<and> scc12_cnt (fst (update e s f c)) = b mod 15 + 1)"
    unfolding b_def M_def .
  then show ?case
    unfolding run1 b_def [symmetric] M_def [symmetric]
  proof (elim disjE conjE)
    assume "M = []" "scc12_cnt (fst (update e s f c)) = b mod 15"
    then show "map msg_cnt M = map (\<lambda>k. (b + int k) mod 15) [0..<length M]
      \<and> scc12_cnt (fst (update e s f c)) mod 15 = (b + int (length M)) mod 15
      \<and> 0 \<le> scc12_cnt (fst (update e s f c)) \<and> scc12_cnt (fst (update e s f c)) \<le> 15"
      using bnd by simp
  next
    assume m: "map msg_cnt M = [b mod 15]" and c: "scc12_cnt (fst (update e s f c)) = b mod 15 + 1"
    from m have len: "length M = 1"
      by (metis length_map length_Cons list.size(3) One_nat_def)
    show "map msg_cnt M = map (\<lambda>k. (b + int k) mod 15) [0..<length M]
      \<and> scc12_cnt (fst (update e s f c)) mod 15 = (b + int (length M)) mod 15
      \<and> 0 \<le> scc12_cnt (fst (update e s f c)) \<and> scc12_cnt (fst (update e s f c)) \<le> 15"
      using bnd by (simp add: m c len mod_add_left_eq)
  qed
next
  case (Cons c' cs)
  define b where "b = (if f = 0 then (if \<not> no_radar (CS c) then CR_VSM_Alive (CS c) + 1 else 0)
                  else scc12_cnt s)"
  define M where "M = filter is_scc12 (snd (snd (update e s f c)))"
  define s1 where "s1 = fst (update e s f c)"
  define M' where "M' = filter is_scc12 (concat (snd (run e s1 (f + 1) (c' # cs))))"
  define s' where "s' = fst (run e s1 (f + 1) (c' # cs))"
  have f1: "0 \<le> f + 1" "f + 1 \<noteq> 0"
    using Cons.prems by simp_all
  have run1: "fst (run e s f (c # c' # cs)) = s'"
    "filter is_scc12 (concat (snd (run e s f (c # c' # cs)))) = M @ M'"
    unfolding s'_def M'_def M_def s1_def
    by (simp_all add: run_fst_Cons run_snd_Cons del: run.simps)
  have ih: "map msg_cnt M' = map (\<lambda>k. (scc12_cnt s1 + int k) mod 15) [0..<length M']"
    "scc12_cnt s' mod 15 = (scc12_cnt s1 + int (length M')) mod 15"
    "0 \<le> scc12_cnt s'" "scc12_cnt s' \<le> 15"
    using Cons.IH [OF f1(1), of s1 c'] f1(2) unfolding M'_def s'_def by simp_all
  from update_scc12_step [of e s f c]
  have "(M = [] \<and> scc12_cnt s1 = b mod 15)
       \<or> (map msg_cnt M = [b mod 15] \<and> scc12_cnt s1 = b mod 15 + 1)"
    unfolding b_def M_def s1_def .
  then show ?case
    unfolding run1 b_def [symmetric]
  proof (elim disjE conjE)
    assume m: "M = []" and c: "scc12_cnt s1 = b mod 15"
    show "map msg_cnt (M @ M') = map (\<lambda>k. (b + int k) mod 15) [0..<length (M @ M')]
      \<and> scc12_cnt s' mod 15 = (b + int (length (M @ M'))) mod 15
      \<and> 0 \<le> scc12_cnt s' \<and> scc12_cnt s' \<le> 15"
      using ih by (simp add: m c counters_same mod_add_left_eq)
  next
    assume m: "map msg_cnt M = [b mod 15]" and c: "scc12_cnt s1 = b mod 15 + 1"
    from m have len: "length M = 1"
      by (metis length_map length_Cons list.size(3) One_nat_def)
    have "map msg_cnt (M @ M') = (b mod 15) # map (\<lambda>k. (b mod 15 + 1 + int k) mod 15) [0..<length M']"
      using ih(1) by (simp add: m c)
    also have "\<dots> = map (\<lambda>k. (b + int k) mod 15) [0..<Suc (length M')]"
      by (rule counters_cons)
    finally have cnts: "map msg_cnt (M @ M') = map (\<lambda>k. (b + int k) mod 15) [0..<length (M @ M')]"
      by (simp add: len)
    have "scc12_cnt s' mod 15 = (b mod 15 + 1 + int (length M')) mod 15"
      using ih(2) by (simp add: c)
    also have "\<dots> = (b + (1 + int (length M'))) mod 15"
      by (rule mod15_step)
    finally have fin: "scc12_cnt s' mod 15 = (b + int (length (M @ M'))) mod 15"
      by (simp add: len)
    show "map msg_cnt (M @ M') = map (\<lambda>k. (b + int k) mod 15) [0..<length (M @ M')]
      \<and> scc12_cnt s' mod 15 = (b + int (length (M @ M'))) mod 15
      \<and> 0 \<le> scc12_cnt s' \<and> scc12_cnt s' \<le> 15"
      using cnts fin ih(3,4) by simp
  qed
qed

text \<open>
  Claim C4, amended. For every run of one or more cycles from frame 0, from any state:
  \<^item> the lane-keep counter equals \<open>(seed + emitted_count) mod 16\<close>, where the seed is
    the message count echoed at cycle 0 and \<open>emitted_count\<close> counts the lane-keep messages
    sent on bus 0, one per cycle (the copy on bus 1 does not advance the counter);
  \<^item> the \<open>k\<close>-th native-cruise (SCC12) message of the run, counting from 0, carries the
    counter \<open>(seed + k) mod 15\<close>, where the seed is the alive counter echoed at cycle 0
    plus one (0 without radar); the stored counter is congruent to
    \<open>seed + emitted_count\<close> modulo 15 and lies between 0 and 15 (it is reduced modulo 15
    at the start of the next cycle, before it is used);
  \<^item> neither counter is negative.
\<close>

theorem counters_after_run:
  "lkas11_cnt (fst (run e s 0 (c # cs)))
     = (CF_Lkas_MsgCount (CS c)
        + int (length (filter (is_lkas11_on 0) (concat (snd (run e s 0 (c # cs))))))) mod 16
   \<and> length (filter (is_lkas11_on 0) (concat (snd (run e s 0 (c # cs))))) = length (c # cs)
   \<and> map msg_cnt (filter is_scc12 (concat (snd (run e s 0 (c # cs)))))
       = map (\<lambda>k. ((if \<not> no_radar (CS c) then CR_VSM_Alive (CS c) + 1 else 0) + int k) mod 15)
           [0..<length (filter is_scc12 (concat (snd (run e s 0 (c # cs)))))]
   \<and> scc12_cnt (fst (run e s 0 (c # cs))) mod 15
       = ((if \<not> no_radar (CS c) then CR_VSM_Alive (CS c) + 1 else 0)
          + int (length (filter is_scc12 (concat (snd (run e s 0 (c # cs))))))) mod 15
   \<and> 0 \<le> lkas11_cnt (fst (run e s 0 (c # cs)))
   \<and> 0 \<le> scc12_cnt (fst (run e s 0 (c # cs)))
   \<and> scc12_cnt (fst (run e s 0 (c # cs))) \<le> 15"
proof -
  have n: "length (filter (is_lkas11_on 0) (concat (snd (run e s 0 (c # cs))))) = length (c # cs)"
    by (rule run_lkas11_bus0_count)
  have l: "lkas11_cnt (fst (run e s 0 (c # cs)))
      = (CF_Lkas_MsgCount (CS c) + int (length (c # cs))) mod 16"
    using run_lkas11_cnt [of 0 e s c cs] by (simp add: add.assoc del: run.simps)
  have l0: "0 \<le> lkas11_cnt (fst (run e s 0 (c # cs)))"
    unfolding l by simp
  show ?thesis
    using run_scc12_counters [of 0 e s c cs] l l0 by (simp only: n simp_thms if_True order_refl)
qed

text \<open>
  Three cycles with full longitudinal control, the echoes 14 (lane-keep) and 13 (alive):
  the lane-keep counter ends at \<open>(14 + 3) mod 16 = 1\<close>, the two SCC12 messages (frames 0
  and 2) carry 14 and 0, and the stored counter ends at 1.
\<close>

theorem counters_after_run_witness:
  "lkas11_cnt (fst (run env0 cc_long 0 [echo13, echo13, echo13])) = 1
   \<and> map msg_cnt (filter is_scc12 (concat (snd (run env0 cc_long 0 [echo13, echo13, echo13]))))
       = [14, 0]
   \<and> scc12_cnt (fst (run env0 cc_long 0 [echo13, echo13, echo13])) = 1"
  using counters_after_run [of env0 cc_long echo13 "[echo13, echo13]"]
  by (simp add: split_def update_scc12_counters update_scc12_cnt update_lkas11_cnt update_keeps
        echo13_def cycle0_def car0_def cc_long_def init_def)

text \<open>
  Claim C4 as stated fails: with the echoed alive counter 13, after cycle 0 one SCC12
  message has been emitted and the stored counter is 15, which is no residue modulo 15
  (whether the seed is read as the echo 13 or as the stored 14).
\<close>

theorem scc12_cnt_reaches_modulus:
  "CR_VSM_Alive (CS echo13) = 13
   \<and> length (filter is_scc12 (concat (snd (run env0 cc_long 0 [echo13])))) = 1
   \<and> scc12_cnt (fst (run env0 cc_long 0 [echo13])) = 15
   \<and> scc12_cnt (fst (run env0 cc_long 0 [echo13])) \<noteq> (13 + 1) mod 15
   \<and> scc12_cnt (fst (run env0 cc_long 0 [echo13])) \<noteq> (13 + 1 + 1) mod 15"
  by (simp add: split_def update_sends Let_def auto_resume_sends update_scc12_cnt
        echo13_def cycle0_def car0_def cc_long_def init_def)

end
